theory Spec2Isabelle
  imports Complex_Main
begin

section \<open>The GPU PME pipeline of GROMACS: data model\<close>

text \<open>
  This theory embeds the host-side driver of the GPU particle-mesh Ewald pipeline
  (\<^verbatim>\<open>src/unnamed/part_000\<close>, the file \<^verbatim>\<open>pme_gpu.cpp\<close> of GROMACS). The driver
  decides which device and host routines are called, in which order and with which
  arguments; the routines themselves (kernels, FFT, stream primitives, the wall-cycle
  counters) live in other files. The embedding therefore threads a log of the external
  calls through every function, takes the results of the external queries as parameters,
  and keeps every field of the structures that the driver reads or writes.
\<close>

subsection \<open>Scalars\<close>

text \<open>
  The C type \<^verbatim>\<open>real\<close> is a binary floating-point type. A value is abstracted to the
  number it denotes, or to NaN; rounding is not modelled (no property below depends on
  the numerical value of a sum or product), but the comparison \<^verbatim>\<open>!=\<close> is the IEEE
  one: it holds as soon as one operand is NaN.
\<close>

datatype real_t = Finite real | NaN

fun real_ne :: "real_t \<Rightarrow> real_t \<Rightarrow> bool" where
  "real_ne (Finite a) (Finite b) = (a \<noteq> b)"
| "real_ne _ _ = True"

fun real_add :: "real_t \<Rightarrow> real_t \<Rightarrow> real_t" where
  "real_add (Finite a) (Finite b) = Finite (a + b)"
| "real_add _ _ = NaN"

fun real_mul :: "real_t \<Rightarrow> real_t \<Rightarrow> real_t" where
  "real_mul (Finite a) (Finite b) = Finite (a * b)"
| "real_mul _ _ = NaN"

subsection \<open>Vectors and matrices\<close>

text \<open>
  \<^verbatim>\<open>rvec\<close> is \<^verbatim>\<open>real[DIM]\<close> and \<^verbatim>\<open>matrix\<close> is \<^verbatim>\<open>real[DIM][DIM]\<close> with
  \<^verbatim>\<open>DIM = 3\<close>: fixed-size arrays, so triples. The driver only ever indexes them
  with \<open>0 \<le> i < DIM\<close>.
\<close>

type_synonym 'a vec3 = "'a \<times> 'a \<times> 'a"
type_synonym rvec = "real_t vec3"
type_synonym matrix = "rvec vec3"

definition DIM :: nat where "DIM = 3"
definition XX :: nat where "XX = 0"
definition YY :: nat where "YY = 1"
definition ZZ :: nat where "ZZ = 2"

fun vec3_get :: "'a vec3 \<Rightarrow> nat \<Rightarrow> 'a" where
  "vec3_get (a, b, c) i = (if i = 0 then a else if i = 1 then b else c)"

fun vec3_set :: "'a vec3 \<Rightarrow> nat \<Rightarrow> 'a \<Rightarrow> 'a vec3" where
  "vec3_set (a, b, c) i v =
     (if i = 0 then (v, b, c) else if i = 1 then (a, v, c) else (a, b, v))"

definition matrix_get :: "matrix \<Rightarrow> nat \<Rightarrow> nat \<Rightarrow> real_t" where
  "matrix_get m i j = vec3_get (vec3_get m i) j"

definition matrix_set :: "matrix \<Rightarrow> nat \<Rightarrow> nat \<Rightarrow> real_t \<Rightarrow> matrix" where
  "matrix_set m i j v = vec3_set m i (vec3_set (vec3_get m i) j v)"

fun rvec_add :: "rvec \<Rightarrow> rvec \<Rightarrow> rvec" where
  "rvec_add (a, b, c) (x, y, z) = (real_add a x, real_add b y, real_add c z)"

fun matrix_add :: "matrix \<Rightarrow> matrix \<Rightarrow> matrix" where
  "matrix_add (a, b, c) (x, y, z) = (rvec_add a x, rvec_add b y, rvec_add c z)"

subsection \<open>Enumerations\<close>

text \<open>
  The enumerations are declared in headers outside the sources; the constructors are the
  enumerators this file names (\<^verbatim>\<open>PmeRunMode::CPU\<close>, \<^verbatim>\<open>GpuTaskCompletion::Check\<close>,
  \<^verbatim>\<open>GridOrdering::YZX\<close>, \<^verbatim>\<open>GridOrdering::XYZ\<close>, the FFT directions, the cycle
  counters) together with their siblings in GROMACS.
\<close>

datatype PmeRunMode = RunMode_None | CPU | GPU | Mixed

datatype GpuTaskCompletion = Wait | Check

datatype GridOrdering = YZX | XYZ

datatype gmx_fft_direction = GMX_FFT_REAL_TO_COMPLEX | GMX_FFT_COMPLEX_TO_REAL

datatype gmx_gpu_kind = GMX_GPU_NONE | GMX_GPU_CUDA | GMX_GPU_OPENCL

datatype ewc =
    ewcLAUNCH_GPU
  | ewcPME_FFT_MIXED_MODE
  | ewcPME_SOLVE_MIXED_MODE
  | ewcWAIT_GPU_PME_SPREAD
  | ewcWAIT_GPU_PME_GATHER
  | ewcPME_GPU_F_REDUCTION

datatype ewcs = ewcsLAUNCH_GPU_PME

text \<open>The axes a grid ordering names, outermost (slowest) first.\<close>

datatype axis = AxisX | AxisY | AxisZ

fun GridOrdering_axes :: "GridOrdering \<Rightarrow> axis list" where
  "GridOrdering_axes YZX = [AxisY, AxisZ, AxisX]"
| "GridOrdering_axes XYZ = [AxisX, AxisY, AxisZ]"

subsection \<open>Structures\<close>

text \<open>
  Each record keeps the fields of the C++ structure that the driver touches. A pointer
  that the driver tests against \<^verbatim>\<open>nullptr\<close> is an \<open>option\<close>; \<^verbatim>\<open>pme->gpu\<close> is
  dereferenced without a test and is a plain field.
\<close>

record PmeGpuSettings =
  performGPUFFT :: bool
  performGPUSolve :: bool
  performGPUGather :: bool
  useGpuForceReduction :: bool
  useDecomposition :: bool

record PmeShared =
  ngrids :: int
  previousBox :: matrix

record PmeGpu =
  settings :: PmeGpuSettings
  common :: PmeShared

record gmx_pme_t =
  runMode :: PmeRunMode
  gpu :: PmeGpu
  nnodes :: int
  ndecompdim :: int
  bPPnode :: bool
  doCoulomb :: bool
  bFEP_q :: bool
  nthread :: int
  recipbox :: matrix
  boxVolume :: real_t

record StepWorkload =
  haveDynamicBox :: bool
  computeEnergy :: bool
  computeVirial :: bool
  useGpuPmeFReduction :: bool

record PmeOutput =
  forces :: "rvec list"
  haveForceOutput :: bool
  coulombEnergy :: real_t
  coulombVirial :: matrix
  coulombDvdl :: real_t

record ForceWithVirial =
  force :: "rvec list"
  virial :: matrix

record gmx_enerdata_t =
  energy_term :: "nat \<Rightarrow> real_t"
  dvdl_lin :: "nat \<Rightarrow> real_t"

type_synonym pointer = "nat option"

subsection \<open>External calls\<close>

text \<open>
  One constructor per external routine the driver calls, with the arguments the driver
  chooses. The host grid pointers (\<^verbatim>\<open>pme->fftgrid\<close>, \<^verbatim>\<open>pme->cfftgrid[gridIndex]\<close>,
  \<^verbatim>\<open>pme->pfft_setup[gridIndex]\<close>) are determined by the structure and the grid index
  and are left out. A log is the list of calls made so far, oldest first.
\<close>

datatype call =
    wallcycle_start ewc
  | wallcycle_start_nocount ewc
  | wallcycle_stop ewc
  | wallcycle_sub_start_nocount ewcs
  | wallcycle_sub_stop ewcs
  | pme_gpu_update_input_box matrix
  | pme_gpu_spread pointer bool bool real_t
  | pme_gpu_sync_spread_grid
  | pme_gpu_3dfft gmx_fft_direction int
  | gmx_parallel_3dfft_execute int gmx_fft_direction int
  | pme_gpu_solve int GridOrdering bool
  | solve_pme_yzx int real_t bool int int
  | pme_gpu_gather real_t
  | pme_gpu_stream_query
  | pme_gpu_synchronize
  | pme_gpu_update_timings
  | pme_gpu_getOutput bool real_t

text \<open>
  What the surroundings of the driver provide: the build configuration, the indices of
  the energy terms, and the results of the external routines that return a value. A
  query of the device may depend on everything issued so far, so it reads the log.
\<close>

record env =
  GMX_GPU :: gmx_gpu_kind
  F_COUL_RECIP :: nat
  efptCOUL :: nat
  atom_data_block_size :: int
  stream_query_result :: "call list \<Rightarrow> gmx_pme_t \<Rightarrow> bool"
  getOutput_result :: "call list \<Rightarrow> gmx_pme_t \<Rightarrow> bool \<Rightarrow> real_t \<Rightarrow> PmeOutput"
  kernelparam_forces :: "PmeGpu \<Rightarrow> pointer"
  forces_ready_synchronizer :: "PmeGpu \<Rightarrow> pointer"
  scaleBox :: "matrix \<Rightarrow> matrix"
  invertBoxMatrix :: "matrix \<Rightarrow> matrix"

subsection \<open>Failures\<close>

datatype error =
    AssertionFailed string
  | NullDereference
  | OutOfBounds

text \<open>
  Modelled from the spec: the macro \<^verbatim>\<open>GMX_ASSERT\<close> is defined in
  \<^verbatim>\<open>gromacs/utility/gmxassert.h\<close>, which is not among the sources. The specification
  says of an asserted precondition that is violated: the process terminates immediately
  with a descriptive diagnostic. The rest of the function runs only when the condition
  holds.
\<close>

definition GMX_ASSERT :: "bool \<Rightarrow> string \<Rightarrow> (error + 'a) \<Rightarrow> (error + 'a)" where
  "GMX_ASSERT condition msg rest = (if condition then rest else Inl (AssertionFailed msg))"

definition msg_not_enabled :: string where
  "msg_not_enabled = ''This should be a GPU run of PME but it is not enabled.''"

definition msg_xReady :: string where
  "msg_xReady = ''Need a valid xReadyOnDevice on PP+PME ranks with CUDA.''"

definition msg_coulomb :: string where
  "msg_coulomb = ''Only Coulomb PME can be run on GPU.''"

definition msg_grids :: string where
  "msg_grids = ''If not decoupling Coulomb interactions there should only be one FEP grid. If decoupling Coulomb interactions there should be two grids.''"

definition msg_force_pointer :: string where
  "msg_force_pointer = ''Invalid force pointer''"

definition msg_energy_manager :: string where
  "msg_energy_manager = ''Invalid energy output manager''"

definition msg_reduction_path :: string where
  "msg_reduction_path = ''GPU force reduction should not be active on the pme_gpu_try_finish_task() path''"

definition msg_force_output :: string where
  "msg_force_output = ''When forces are reduced on the CPU, there needs to be force output''"

section \<open>The driver\<close>

definition pme_gpu_active :: "gmx_pme_t option \<Rightarrow> bool" where
  "pme_gpu_active pme = (case pme of None \<Rightarrow> False | Some p \<Rightarrow> runMode p \<noteq> CPU)"

definition pme_gpu_get_block_size :: "env \<Rightarrow> gmx_pme_t option \<Rightarrow> int" where
  "pme_gpu_get_block_size e pme =
     (if pme = None \<or> \<not> pme_gpu_active pme then 0 else atom_data_block_size e)"

definition pme_gpu_get_device_f :: "env \<Rightarrow> gmx_pme_t option \<Rightarrow> pointer" where
  "pme_gpu_get_device_f e pme =
     (case pme of
        None \<Rightarrow> None
      | Some p \<Rightarrow> if \<not> pme_gpu_active pme then None else kernelparam_forces e (gpu p))"

definition pme_gpu_get_f_ready_synchronizer :: "env \<Rightarrow> gmx_pme_t option \<Rightarrow> pointer" where
  "pme_gpu_get_f_ready_synchronizer e pme =
     (case pme of
        None \<Rightarrow> None
      | Some p \<Rightarrow> if \<not> pme_gpu_active pme then None else forces_ready_synchronizer e (gpu p))"

subsection \<open>Preparing a step: the box tracker\<close>

text \<open>
  The body of the double loop of \<^verbatim>\<open>pme_gpu_prepare_computation\<close>:
  \<^verbatim>\<open>shouldUpdateBox |= (previousBox[i][j] != box[i][j]); previousBox[i][j] = box[i][j];\<close>
  and the loop itself, \<^verbatim>\<open>for (i = 0; i < DIM; ++i) for (j = 0; j <= i; ++j)\<close>.
\<close>

definition box_entry_step :: "matrix \<Rightarrow> nat \<Rightarrow> nat \<Rightarrow> bool \<times> matrix \<Rightarrow> bool \<times> matrix" where
  "box_entry_step box i j st =
     (case st of (shouldUpdateBox, prev) \<Rightarrow>
        (shouldUpdateBox \<or> real_ne (matrix_get prev i j) (matrix_get box i j),
         matrix_set prev i j (matrix_get box i j)))"

definition box_loop :: "matrix \<Rightarrow> bool \<times> matrix \<Rightarrow> bool \<times> matrix" where
  "box_loop box st = fold (\<lambda>i. fold (\<lambda>j. box_entry_step box i j) [0..<Suc i]) [0..<DIM] st"

definition launch_update_input_box :: "matrix \<Rightarrow> call list" where
  "launch_update_input_box box =
     [wallcycle_start_nocount ewcLAUNCH_GPU, wallcycle_sub_start_nocount ewcsLAUNCH_GPU_PME,
      pme_gpu_update_input_box box,
      wallcycle_sub_stop ewcsLAUNCH_GPU_PME, wallcycle_stop ewcLAUNCH_GPU]"

definition pme_gpu_prepare_computation ::
  "env \<Rightarrow> gmx_pme_t option \<Rightarrow> matrix \<Rightarrow> StepWorkload \<Rightarrow> call list
     \<Rightarrow> error + (gmx_pme_t \<times> call list)" where
  "pme_gpu_prepare_computation e pme box stepWork calls =
     GMX_ASSERT (pme_gpu_active pme) msg_not_enabled
     (case pme of
        None \<Rightarrow> Inl NullDereference
      | Some p \<Rightarrow>
          GMX_ASSERT (nnodes p > 0) []
          (GMX_ASSERT (nnodes p = 1 \<or> ndecompdim p > 0) []
           (let pmeGpu = gpu p;
                settings1 = (settings pmeGpu)\<lparr>useGpuForceReduction := useGpuPmeFReduction stepWork\<rparr>;
                looped = box_loop box (False, previousBox (common pmeGpu));
                shouldUpdateBox = fst looped;
                pmeGpu1 = pmeGpu\<lparr>settings := settings1,
                                  common := (common pmeGpu)\<lparr>previousBox := snd looped\<rparr>\<rparr>;
                p1 = p\<lparr>gpu := pmeGpu1\<rparr>
            in if haveDynamicBox stepWork \<or> shouldUpdateBox
               then
                 (let calls1 = calls @ launch_update_input_box box
                  in if \<not> performGPUSolve (settings pmeGpu1)
                     then
                       (let scaledBox = scaleBox e box
                        in Inr (p1\<lparr>recipbox := invertBoxMatrix e scaledBox,
                                    boxVolume := real_mul (real_mul (matrix_get scaledBox XX XX)
                                                                    (matrix_get scaledBox YY YY))
                                                          (matrix_get scaledBox ZZ ZZ)\<rparr>,
                                calls1))
                     else Inr (p1, calls1))
               else Inr (p1, calls))))"

subsection \<open>Launching the stages\<close>

definition pme_gpu_launch_spread ::
  "env \<Rightarrow> gmx_pme_t option \<Rightarrow> pointer \<Rightarrow> real_t \<Rightarrow> call list \<Rightarrow> error + call list" where
  "pme_gpu_launch_spread e pme xReadyOnDevice lambdaQ calls =
     GMX_ASSERT (pme_gpu_active pme) msg_not_enabled
     (case pme of
        None \<Rightarrow> Inl NullDereference
      | Some p \<Rightarrow>
          GMX_ASSERT (xReadyOnDevice \<noteq> None \<or> \<not> bPPnode p \<or> GMX_GPU e \<noteq> GMX_GPU_CUDA) msg_xReady
          (GMX_ASSERT (doCoulomb p) msg_coulomb
           (GMX_ASSERT (ngrids (common (gpu p)) = 1 \<or> (ngrids (common (gpu p)) = 2 \<and> bFEP_q p))
              msg_grids
              (let computeSplines = True;
                   spreadCharges = True
               in Inr (calls @
                    [wallcycle_start_nocount ewcLAUNCH_GPU,
                     wallcycle_sub_start_nocount ewcsLAUNCH_GPU_PME,
                     pme_gpu_spread xReadyOnDevice computeSplines spreadCharges lambdaQ,
                     wallcycle_sub_stop ewcsLAUNCH_GPU_PME,
                     wallcycle_stop ewcLAUNCH_GPU])))))"

text \<open>
  The threads of an OpenMP \<^verbatim>\<open>parallel for\<close> are logged in index order. The transform
  stage dereferences \<^verbatim>\<open>pme\<close> without a check, so it takes the structure itself; its
  \<^verbatim>\<open>try\<close> block only guards the external routines, which are calls that return here.
\<close>

definition parallel_3dfft_execute_gpu_wrapper ::
  "gmx_pme_t \<Rightarrow> int \<Rightarrow> gmx_fft_direction \<Rightarrow> call list \<Rightarrow> call list" where
  "parallel_3dfft_execute_gpu_wrapper pme gridIndex dir calls =
     (if performGPUFFT (settings (gpu pme))
      then calls @
        [wallcycle_start_nocount ewcLAUNCH_GPU, wallcycle_sub_start_nocount ewcsLAUNCH_GPU_PME,
         pme_gpu_3dfft dir gridIndex,
         wallcycle_sub_stop ewcsLAUNCH_GPU_PME, wallcycle_stop ewcLAUNCH_GPU]
      else calls @ [wallcycle_start ewcPME_FFT_MIXED_MODE]
             @ map (\<lambda>thread. gmx_parallel_3dfft_execute gridIndex dir thread) [0..nthread pme - 1]
             @ [wallcycle_stop ewcPME_FFT_MIXED_MODE])"

definition solve_grid :: "gmx_pme_t \<Rightarrow> bool \<Rightarrow> int \<Rightarrow> call list \<Rightarrow> call list" where
  "solve_grid pme computeEnergyAndVirial gridIndex calls =
     (if performGPUSolve (settings (gpu pme))
      then
        (let gridOrdering = (if useDecomposition (settings (gpu pme)) then YZX else XYZ)
         in calls @
           [wallcycle_start_nocount ewcLAUNCH_GPU, wallcycle_sub_start_nocount ewcsLAUNCH_GPU_PME,
            pme_gpu_solve gridIndex gridOrdering computeEnergyAndVirial,
            wallcycle_sub_stop ewcsLAUNCH_GPU_PME, wallcycle_stop ewcLAUNCH_GPU])
      else calls @ [wallcycle_start ewcPME_SOLVE_MIXED_MODE]
             @ map (\<lambda>thread. solve_pme_yzx gridIndex (boxVolume pme) computeEnergyAndVirial
                                 (nthread pme) thread) [0..nthread pme - 1]
             @ [wallcycle_stop ewcPME_SOLVE_MIXED_MODE])"

definition transform_grid :: "gmx_pme_t \<Rightarrow> bool \<Rightarrow> int \<Rightarrow> call list \<Rightarrow> call list" where
  "transform_grid pme computeEnergyAndVirial gridIndex calls =
     parallel_3dfft_execute_gpu_wrapper pme gridIndex GMX_FFT_COMPLEX_TO_REAL
       (solve_grid pme computeEnergyAndVirial gridIndex
         (parallel_3dfft_execute_gpu_wrapper pme gridIndex GMX_FFT_REAL_TO_COMPLEX calls))"

definition pme_gpu_launch_complex_transforms ::
  "gmx_pme_t \<Rightarrow> StepWorkload \<Rightarrow> call list \<Rightarrow> call list" where
  "pme_gpu_launch_complex_transforms pme stepWork calls =
     (let computeEnergyAndVirial = (computeEnergy stepWork \<or> computeVirial stepWork);
          calls1 = (if \<not> performGPUFFT (settings (gpu pme))
                  then calls @ [wallcycle_start ewcWAIT_GPU_PME_SPREAD, pme_gpu_sync_spread_grid,
                              wallcycle_stop ewcWAIT_GPU_PME_SPREAD]
                  else calls)
      in fold (\<lambda>gridIndex. transform_grid pme computeEnergyAndVirial gridIndex)
           [0..ngrids (common (gpu pme)) - 1] calls1)"


subsection \<open>Reducing the outputs\<close>

text \<open>
  \<^verbatim>\<open>sum_forces\<close> writes \<^verbatim>\<open>f[i]\<close> for every index of \<^verbatim>\<open>forceToAdd\<close> through an
  unchecked \<^verbatim>\<open>ArrayRef\<close>; a destination shorter than the source is an access out of
  bounds, which is a failure of the embedding.
\<close>

definition sum_forces :: "rvec list \<Rightarrow> rvec list \<Rightarrow> error + rvec list" where
  "sum_forces f forceToAdd =
     (if length forceToAdd \<le> length f
      then Inr (fold (\<lambda>i f. f[i := rvec_add (f ! i) (forceToAdd ! i)]) [0..<length forceToAdd] f)
      else Inl OutOfBounds)"

text \<open>
  Modelled from the spec: \<^verbatim>\<open>ForceWithVirial::addVirialContribution\<close> is declared in
  \<^verbatim>\<open>gromacs/mdtypes/forceoutput.h\<close>, which is not among the sources. The specification
  says: add the virial tensor into the destination virial.
\<close>

definition addVirialContribution :: "ForceWithVirial \<Rightarrow> matrix \<Rightarrow> ForceWithVirial" where
  "addVirialContribution fwv v = fwv\<lparr>virial := matrix_add (virial fwv) v\<rparr>"

text \<open>
  The two lines \<^verbatim>\<open>enerd->term[F_COUL_RECIP] += output.coulombEnergy_;\<close> and
  \<^verbatim>\<open>enerd->dvdl_lin[efptCOUL] += output.coulombDvdl_;\<close>.
\<close>

definition add_energy_and_dvdl :: "env \<Rightarrow> PmeOutput \<Rightarrow> gmx_enerdata_t \<Rightarrow> gmx_enerdata_t" where
  "add_energy_and_dvdl e output en =
     en\<lparr>energy_term := (energy_term en)
           (F_COUL_RECIP e := real_add (energy_term en (F_COUL_RECIP e)) (coulombEnergy output)),
        dvdl_lin := (dvdl_lin en)
           (efptCOUL e := real_add (dvdl_lin en (efptCOUL e)) (coulombDvdl output))\<rparr>"

definition reduce_energy_virial ::
  "env \<Rightarrow> bool \<Rightarrow> PmeOutput \<Rightarrow> ForceWithVirial \<Rightarrow> gmx_enerdata_t option
     \<Rightarrow> error + (ForceWithVirial \<times> gmx_enerdata_t option)" where
  "reduce_energy_virial e computeEnergyAndVirial output fwv enerd =
     (if computeEnergyAndVirial
      then GMX_ASSERT (enerd \<noteq> None) msg_energy_manager
        (case enerd of
           None \<Rightarrow> Inl NullDereference
         | Some en \<Rightarrow>
             Inr (addVirialContribution fwv (coulombVirial output),
                  Some (add_energy_and_dvdl e output en)))
      else Inr (fwv, enerd))"

definition reduce_forces :: "PmeOutput \<Rightarrow> ForceWithVirial \<Rightarrow> error + ForceWithVirial" where
  "reduce_forces output fwv =
     (if haveForceOutput output
      then (case sum_forces (force fwv) (forces output) of
              Inl err \<Rightarrow> Inl err
            | Inr f \<Rightarrow> Inr (fwv\<lparr>force := f\<rparr>))
      else Inr fwv)"

definition pme_gpu_reduce_outputs ::
  "env \<Rightarrow> bool \<Rightarrow> PmeOutput \<Rightarrow> ForceWithVirial option \<Rightarrow> gmx_enerdata_t option \<Rightarrow> call list
     \<Rightarrow> error + (ForceWithVirial option \<times> gmx_enerdata_t option \<times> call list)" where
  "pme_gpu_reduce_outputs e computeEnergyAndVirial output forceWithVirial enerd calls =
     GMX_ASSERT (forceWithVirial \<noteq> None) msg_force_pointer
     (case forceWithVirial of
        None \<Rightarrow> Inl NullDereference
      | Some fwv \<Rightarrow>
          (case reduce_energy_virial e computeEnergyAndVirial output fwv enerd of
             Inl err \<Rightarrow> Inl err
           | Inr (fwv1, enerd1) \<Rightarrow>
               (case reduce_forces output fwv1 of
                  Inl err \<Rightarrow> Inl err
                | Inr fwv2 \<Rightarrow>
                    Inr (Some fwv2, enerd1,
                         calls @ [wallcycle_start ewcPME_GPU_F_REDUCTION,
                                wallcycle_stop ewcPME_GPU_F_REDUCTION]))))"

subsection \<open>Completion: poll and block\<close>

text \<open>
  The three completion entry points write no field of \<^verbatim>\<open>*pme\<close>: what they do to the
  device is in the log. The lambda handed to the output fetch is
  \<^verbatim>\<open>ngrids > 1 ? lambdaQ : 1.0\<close>.
\<close>

definition fetch_lambda :: "gmx_pme_t \<Rightarrow> real_t \<Rightarrow> real_t" where
  "fetch_lambda p lambdaQ = (if ngrids (common (gpu p)) > 1 then lambdaQ else Finite 1)"

definition pme_gpu_try_finish_task ::
  "env \<Rightarrow> gmx_pme_t option \<Rightarrow> StepWorkload \<Rightarrow> ForceWithVirial option \<Rightarrow> gmx_enerdata_t option
     \<Rightarrow> real_t \<Rightarrow> GpuTaskCompletion \<Rightarrow> call list
     \<Rightarrow> error + (bool \<times> ForceWithVirial option \<times> gmx_enerdata_t option \<times> call list)" where
  "pme_gpu_try_finish_task e pme stepWork forceWithVirial enerd lambdaQ completionKind calls =
     GMX_ASSERT (pme_gpu_active pme) msg_not_enabled
     (case pme of
        None \<Rightarrow> Inl NullDereference
      | Some p \<Rightarrow>
          GMX_ASSERT (\<not> useGpuForceReduction (settings (gpu p))) msg_reduction_path
          (let c_streamQuerySupported = (GMX_GPU e = GMX_GPU_CUDA);
               checking = (completionKind = Check \<and> c_streamQuerySupported);
               calls0 = calls @ [wallcycle_start_nocount ewcWAIT_GPU_PME_GATHER];
               pmeGpuDone = stream_query_result e calls0 p;
               calls1 = (if checking
                       then calls0 @ [pme_gpu_stream_query, wallcycle_stop ewcWAIT_GPU_PME_GATHER]
                       else calls)
           in if checking \<and> \<not> pmeGpuDone then Inr (False, forceWithVirial, enerd, calls1)
              else
                (let needToSynchronize = (\<not> checking);
                     calls2 = calls1 @ [wallcycle_start ewcWAIT_GPU_PME_GATHER];
                     calls3 = (if needToSynchronize then calls2 @ [pme_gpu_synchronize] else calls2);
                     calls4 = calls3 @ [pme_gpu_update_timings];
                     computeEnergyAndVirial = (computeEnergy stepWork \<or> computeVirial stepWork);
                     output = getOutput_result e calls4 p computeEnergyAndVirial
                                (fetch_lambda p lambdaQ);
                     calls5 = calls4 @ [pme_gpu_getOutput computeEnergyAndVirial (fetch_lambda p lambdaQ),
                                    wallcycle_stop ewcWAIT_GPU_PME_GATHER]
                 in GMX_ASSERT (useGpuForceReduction (settings (gpu p)) = (\<not> haveForceOutput output))
                      msg_force_output
                      (case pme_gpu_reduce_outputs e computeEnergyAndVirial output
                              forceWithVirial enerd calls5 of
                         Inl err \<Rightarrow> Inl err
                       | Inr (fwv1, enerd1, calls6) \<Rightarrow> Inr (True, fwv1, enerd1, calls6)))))"

definition pme_gpu_wait_finish_task ::
  "env \<Rightarrow> gmx_pme_t option \<Rightarrow> bool \<Rightarrow> real_t \<Rightarrow> call list \<Rightarrow> error + (PmeOutput \<times> call list)" where
  "pme_gpu_wait_finish_task e pme computeEnergyAndVirial lambdaQ calls =
     GMX_ASSERT (pme_gpu_active pme) msg_not_enabled
     (case pme of
        None \<Rightarrow> Inl NullDereference
      | Some p \<Rightarrow>
          (let calls1 = calls @ [wallcycle_start ewcWAIT_GPU_PME_GATHER];
               calls2 = (if \<not> useGpuForceReduction (settings (gpu p)) \<or> computeEnergyAndVirial
                       then calls1 @ [pme_gpu_synchronize] else calls1);
               output = getOutput_result e calls2 p computeEnergyAndVirial (fetch_lambda p lambdaQ)
           in Inr (output,
                   calls2 @ [pme_gpu_getOutput computeEnergyAndVirial (fetch_lambda p lambdaQ),
                           wallcycle_stop ewcWAIT_GPU_PME_GATHER])))"

definition pme_gpu_wait_and_reduce ::
  "env \<Rightarrow> gmx_pme_t option \<Rightarrow> StepWorkload \<Rightarrow> ForceWithVirial option \<Rightarrow> gmx_enerdata_t option
     \<Rightarrow> real_t \<Rightarrow> call list
     \<Rightarrow> error + (ForceWithVirial option \<times> gmx_enerdata_t option \<times> call list)" where
  "pme_gpu_wait_and_reduce e pme stepWork forceWithVirial enerd lambdaQ calls =
     (case pme of
        None \<Rightarrow> Inl NullDereference
      | Some p \<Rightarrow>
          (let computeEnergyAndVirial = (computeEnergy stepWork \<or> computeVirial stepWork)
           in case pme_gpu_wait_finish_task e pme computeEnergyAndVirial
                     (fetch_lambda p lambdaQ) calls of
                Inl err \<Rightarrow> Inl err
              | Inr (output, calls1) \<Rightarrow>
                  GMX_ASSERT (useGpuForceReduction (settings (gpu p)) = (\<not> haveForceOutput output))
                    msg_force_output
                    (pme_gpu_reduce_outputs e computeEnergyAndVirial output
                       forceWithVirial enerd calls1)))"

subsection \<open>The end of a step\<close>



section \<open>Reading the log\<close>

text \<open>
  What a property says about "the ordering passed to the solve kernel" or "the lambda
  passed to the output fetch" is read off the log by these functions.
\<close>

fun solve_ordering :: "call \<Rightarrow> GridOrdering option" where
  "solve_ordering (pme_gpu_solve gridIndex gridOrdering computeEnergyAndVirial) = Some gridOrdering"
| "solve_ordering _ = None"

definition solve_orderings :: "call list \<Rightarrow> GridOrdering list" where
  "solve_orderings calls = List.map_filter solve_ordering calls"

fun energy_virial_flag :: "call \<Rightarrow> bool option" where
  "energy_virial_flag (pme_gpu_solve gridIndex gridOrdering computeEnergyAndVirial) =
     Some computeEnergyAndVirial"
| "energy_virial_flag (solve_pme_yzx gridIndex vol computeEnergyAndVirial nthreads thread) =
     Some computeEnergyAndVirial"
| "energy_virial_flag (pme_gpu_getOutput computeEnergyAndVirial lambdaQ) =
     Some computeEnergyAndVirial"
| "energy_virial_flag _ = None"

definition energy_virial_flags :: "call list \<Rightarrow> bool list" where
  "energy_virial_flags calls = List.map_filter energy_virial_flag calls"




section \<open>The routines behind the force reduction\<close>




section \<open>The box comparison in the words of the specification\<close>

text \<open>
  The six independent entries of a box are its lower triangle, in the order in which the
  loop visits them. "At least one compared entry differs" is the specification's
  trigger; the comparison is the one of the code, \<^verbatim>\<open>!=\<close>.
\<close>

definition lower_triangular_entries :: "(nat \<times> nat) list" where
  "lower_triangular_entries = [(0, 0), (1, 0), (1, 1), (2, 0), (2, 1), (2, 2)]"

definition some_entry_differs :: "matrix \<Rightarrow> matrix \<Rightarrow> bool" where
  "some_entry_differs prev box =
     list_ex (\<lambda>(i, j). real_ne (matrix_get prev i j) (matrix_get box i j))
       lower_triangular_entries"

definition has_nan_entry :: "matrix \<Rightarrow> bool" where
  "has_nan_entry box = list_ex (\<lambda>(i, j). matrix_get box i j = NaN) lower_triangular_entries"

section \<open>Example inputs\<close>

definition zero_rvec :: rvec where
  "zero_rvec = (Finite 0, Finite 0, Finite 0)"

definition zero_matrix :: matrix where
  "zero_matrix = (zero_rvec, zero_rvec, zero_rvec)"

definition cubic_box :: matrix where
  "cubic_box = ((Finite 3, Finite 0, Finite 0),
                (Finite 0, Finite 3, Finite 0),
                (Finite 0, Finite 0, Finite 3))"

definition triclinic_box :: matrix where
  "triclinic_box = ((Finite 3, Finite 0, Finite 0),
                    (Finite 1, Finite 3, Finite 0),
                    (Finite 0, Finite 0, Finite 3))"

definition upper_box :: matrix where
  "upper_box = ((Finite 3, Finite 5, Finite 0),
                (Finite 0, Finite 3, Finite 0),
                (Finite 0, Finite 0, Finite 3))"

definition nan_box :: matrix where
  "nan_box = ((NaN, Finite 0, Finite 0),
              (Finite 0, Finite 3, Finite 0),
              (Finite 0, Finite 0, Finite 3))"

definition settings_gpu :: PmeGpuSettings where
  "settings_gpu = \<lparr>performGPUFFT = True, performGPUSolve = True, performGPUGather = True,
                    useGpuForceReduction = False, useDecomposition = False\<rparr>"

definition pme_single :: gmx_pme_t where
  "pme_single = \<lparr>runMode = GPU,
                  gpu = \<lparr>settings = settings_gpu,
                         common = \<lparr>ngrids = 1, previousBox = zero_matrix\<rparr>\<rparr>,
                  nnodes = 1, ndecompdim = 0, bPPnode = True, doCoulomb = True, bFEP_q = False,
                  nthread = 2, recipbox = zero_matrix, boxVolume = Finite 0\<rparr>"

definition pme_cpu :: gmx_pme_t where
  "pme_cpu = pme_single\<lparr>runMode := CPU\<rparr>"

definition pme_dual :: gmx_pme_t where
  "pme_dual = pme_single\<lparr>gpu := \<lparr>settings = settings_gpu,
                                   common = \<lparr>ngrids = 2, previousBox = zero_matrix\<rparr>\<rparr>,
                         bFEP_q := True\<rparr>"

definition pme_three :: gmx_pme_t where
  "pme_three = pme_single\<lparr>gpu := \<lparr>settings = settings_gpu,
                                    common = \<lparr>ngrids = 3, previousBox = zero_matrix\<rparr>\<rparr>\<rparr>"

definition pme_decomposed :: gmx_pme_t where
  "pme_decomposed = pme_single\<lparr>gpu := \<lparr>settings = settings_gpu\<lparr>useDecomposition := True\<rparr>,
                                         common = \<lparr>ngrids = 1, previousBox = zero_matrix\<rparr>\<rparr>\<rparr>"

definition pme_mixed :: gmx_pme_t where
  "pme_mixed = pme_single\<lparr>gpu := \<lparr>settings = settings_gpu\<lparr>performGPUFFT := False,
                                                            performGPUSolve := False\<rparr>,
                                    common = \<lparr>ngrids = 1, previousBox = zero_matrix\<rparr>\<rparr>\<rparr>"


definition pme_device_reduction :: gmx_pme_t where
  "pme_device_reduction =
     pme_single\<lparr>gpu := \<lparr>settings = settings_gpu\<lparr>useGpuForceReduction := True\<rparr>,
                         common = \<lparr>ngrids = 1, previousBox = zero_matrix\<rparr>\<rparr>\<rparr>"



text \<open>
  An output fetch as the specification describes it: forces only when the reduction is
  on the host, energy, virial and dvdl only when requested; the energy is the lambda it
  was handed, so that the lambda shows in the output.
\<close>

definition example_getOutput :: "call list \<Rightarrow> gmx_pme_t \<Rightarrow> bool \<Rightarrow> real_t \<Rightarrow> PmeOutput" where
  "example_getOutput calls p computeEnergyAndVirial lambdaQ =
     \<lparr>forces = (if useGpuForceReduction (settings (gpu p)) then []
                else [(Finite 1, Finite 2, Finite 3)]),
      haveForceOutput = (\<not> useGpuForceReduction (settings (gpu p))),
      coulombEnergy = (if computeEnergyAndVirial then lambdaQ else Finite 0),
      coulombVirial = (if computeEnergyAndVirial then cubic_box else zero_matrix),
      coulombDvdl = (if computeEnergyAndVirial then Finite 7 else Finite 0)\<rparr>"

definition env_cuda :: env where
  "env_cuda = \<lparr>GMX_GPU = GMX_GPU_CUDA, F_COUL_RECIP = 0, efptCOUL = 0,
                atom_data_block_size = 32,
                stream_query_result = (\<lambda>calls p. False),
                getOutput_result = example_getOutput,
                kernelparam_forces = (\<lambda>g. Some 1),
                forces_ready_synchronizer = (\<lambda>g. Some 2),
                scaleBox = (\<lambda>m. m),
                invertBoxMatrix = (\<lambda>m. m)\<rparr>"

definition pme_after_cubic :: gmx_pme_t where
  "pme_after_cubic = pme_single\<lparr>gpu := \<lparr>settings = settings_gpu,
                                          common = \<lparr>ngrids = 1, previousBox = cubic_box\<rparr>\<rparr>\<rparr>"

definition pme_after_triclinic :: gmx_pme_t where
  "pme_after_triclinic =
     pme_single\<lparr>gpu := \<lparr>settings = settings_gpu,
                         common = \<lparr>ngrids = 1, previousBox = triclinic_box\<rparr>\<rparr>\<rparr>"

definition pme_after_nan :: gmx_pme_t where
  "pme_after_nan = pme_single\<lparr>gpu := \<lparr>settings = settings_gpu,
                                        common = \<lparr>ngrids = 1, previousBox = nan_box\<rparr>\<rparr>\<rparr>"

definition step_static :: StepWorkload where
  "step_static = \<lparr>haveDynamicBox = False, computeEnergy = False, computeVirial = False,
                   useGpuPmeFReduction = False\<rparr>"

definition step_energy :: StepWorkload where
  "step_energy = step_static\<lparr>computeEnergy := True\<rparr>"

definition fwv_one :: ForceWithVirial where
  "fwv_one = \<lparr>force = [(Finite 10, Finite 10, Finite 10)], virial = zero_matrix\<rparr>"

definition enerd_zero :: gmx_enerdata_t where
  "enerd_zero = \<lparr>energy_term = (\<lambda>i. Finite 0), dvdl_lin = (\<lambda>i. Finite 0)\<rparr>"

section \<open>Auxiliary facts\<close>

subsection \<open>Diagnostics\<close>

lemma msg_grids_distinct:
  "msg_grids \<noteq> msg_not_enabled" "msg_grids \<noteq> msg_xReady" "msg_grids \<noteq> msg_coulomb"
  by (simp_all add: msg_grids_def msg_not_enabled_def msg_xReady_def msg_coulomb_def)

subsection \<open>What the transform stage logs\<close>

lemma solve_orderings_append:
  "solve_orderings (xs @ ys) = solve_orderings xs @ solve_orderings ys"
  by (simp add: solve_orderings_def map_filter_def)

lemma energy_virial_flags_append:
  "energy_virial_flags (xs @ ys) = energy_virial_flags xs @ energy_virial_flags ys"
  by (simp add: energy_virial_flags_def map_filter_def)


lemma solve_orderings_fft:
  "solve_orderings (parallel_3dfft_execute_gpu_wrapper pme gridIndex dir calls)
     = solve_orderings calls"
  by (simp add: parallel_3dfft_execute_gpu_wrapper_def solve_orderings_def map_filter_def
        filter_map comp_def)

lemma solve_orderings_solve_grid:
  "solve_orderings (solve_grid pme cev gridIndex calls)
     = solve_orderings calls
       @ (if performGPUSolve (settings (gpu pme))
          then [if useDecomposition (settings (gpu pme)) then YZX else XYZ] else [])"
  by (simp add: solve_grid_def solve_orderings_def map_filter_def filter_map comp_def)

lemma solve_orderings_transform_grid:
  "solve_orderings (transform_grid pme cev gridIndex calls)
     = solve_orderings calls
       @ (if performGPUSolve (settings (gpu pme))
          then [if useDecomposition (settings (gpu pme)) then YZX else XYZ] else [])"
  by (simp add: transform_grid_def solve_orderings_fft solve_orderings_solve_grid)

lemma solve_orderings_fold:
  "solve_orderings (fold (\<lambda>gridIndex. transform_grid pme cev gridIndex) gs calls)
     = solve_orderings calls
       @ (if performGPUSolve (settings (gpu pme))
          then replicate (length gs) (if useDecomposition (settings (gpu pme)) then YZX else XYZ)
          else [])"
proof (induction gs arbitrary: calls)
  case Nil
  show ?case by simp
next
  case (Cons g gs)
  show ?case
    by (simp add: Cons.IH solve_orderings_transform_grid replicate_append_same)
qed

lemma solve_orderings_launch:
  "solve_orderings (pme_gpu_launch_complex_transforms pme stepWork calls)
     = solve_orderings calls
       @ (if performGPUSolve (settings (gpu pme))
          then replicate (nat (ngrids (common (gpu pme))))
                 (if useDecomposition (settings (gpu pme)) then YZX else XYZ)
          else [])"
  by (simp add: pme_gpu_launch_complex_transforms_def Let_def solve_orderings_fold
        solve_orderings_append solve_orderings_def[of "[_,_,_]"] map_filter_def)

lemma flags_fft:
  "energy_virial_flags (parallel_3dfft_execute_gpu_wrapper pme gridIndex dir calls)
     = energy_virial_flags calls"
  by (simp add: parallel_3dfft_execute_gpu_wrapper_def energy_virial_flags_def map_filter_def
        filter_map comp_def)

lemma flags_Nil: "energy_virial_flags [] = []"
  by (simp add: energy_virial_flags_def map_filter_def)

lemma flags_Cons:
  "energy_virial_flags (c # cs)
     = (case energy_virial_flag c of None \<Rightarrow> [] | Some b \<Rightarrow> [b]) @ energy_virial_flags cs"
  by (simp add: energy_virial_flags_def map_filter_def split: option.splits)

lemma flags_threads:
  "energy_virial_flags (map (\<lambda>thread. solve_pme_yzx gridIndex vol cev n thread) ts)
     = replicate (length ts) cev"
  by (induction ts) (simp_all add: energy_virial_flags_def map_filter_def)

lemma flags_solve_grid:
  "set (energy_virial_flags (solve_grid pme cev gridIndex calls))
     \<subseteq> set (energy_virial_flags calls) \<union> {cev}"
proof (cases "performGPUSolve (settings (gpu pme))")
  case True
  then have "energy_virial_flags (solve_grid pme cev gridIndex calls)
               = energy_virial_flags calls @ [cev]"
    by (simp add: solve_grid_def energy_virial_flags_append flags_Nil flags_Cons)
  then show ?thesis by auto
next
  case False
  then have "energy_virial_flags (solve_grid pme cev gridIndex calls)
               = energy_virial_flags calls
                 @ replicate (length [0..nthread pme - 1]) cev"
    by (simp add: solve_grid_def energy_virial_flags_append flags_threads flags_Nil flags_Cons)
  then show ?thesis by auto
qed

lemma flags_transform_grid:
  "set (energy_virial_flags (transform_grid pme cev gridIndex calls))
     \<subseteq> set (energy_virial_flags calls) \<union> {cev}"
proof -
  have "set (energy_virial_flags (transform_grid pme cev gridIndex calls))
          = set (energy_virial_flags (solve_grid pme cev gridIndex
                   (parallel_3dfft_execute_gpu_wrapper pme gridIndex
                      GMX_FFT_REAL_TO_COMPLEX calls)))"
    by (simp add: transform_grid_def flags_fft)
  also have "\<dots> \<subseteq> set (energy_virial_flags
                   (parallel_3dfft_execute_gpu_wrapper pme gridIndex
                      GMX_FFT_REAL_TO_COMPLEX calls)) \<union> {cev}"
    by (rule flags_solve_grid)
  finally show ?thesis by (simp add: flags_fft)
qed

lemma flags_fold:
  "set (energy_virial_flags (fold (\<lambda>gridIndex. transform_grid pme cev gridIndex) gs calls))
     \<subseteq> set (energy_virial_flags calls) \<union> {cev}"
proof (induction gs arbitrary: calls)
  case Nil
  show ?case by auto
next
  case (Cons g gs)
  have "set (energy_virial_flags
               (fold (\<lambda>gridIndex. transform_grid pme cev gridIndex) gs
                  (transform_grid pme cev g calls)))
          \<subseteq> set (energy_virial_flags (transform_grid pme cev g calls)) \<union> {cev}"
    by (rule Cons.IH)
  also have "\<dots> \<subseteq> set (energy_virial_flags calls) \<union> {cev}"
    using flags_transform_grid [of pme cev g calls] by blast
  finally show ?case by simp
qed

lemma flags_launch:
  "set (energy_virial_flags (pme_gpu_launch_complex_transforms pme stepWork calls))
     \<subseteq> set (energy_virial_flags calls) \<union> {computeEnergy stepWork \<or> computeVirial stepWork}"
proof -
  let ?cev = "computeEnergy stepWork \<or> computeVirial stepWork"
  let ?calls1 = "if \<not> performGPUFFT (settings (gpu pme))
                  then calls @ [wallcycle_start ewcWAIT_GPU_PME_SPREAD, pme_gpu_sync_spread_grid,
                              wallcycle_stop ewcWAIT_GPU_PME_SPREAD]
                  else calls"
  have "energy_virial_flags ?calls1 = energy_virial_flags calls"
    by (simp add: energy_virial_flags_def map_filter_def)
  then show ?thesis
    using flags_fold [of pme ?cev "[0..ngrids (common (gpu pme)) - 1]" ?calls1]
    by (simp add: pme_gpu_launch_complex_transforms_def Let_def)
qed

subsection \<open>The blocking wait, unfolded\<close>

lemma wait_finish_task_active:
  "pme_gpu_active (Some p) \<Longrightarrow>
     pme_gpu_wait_finish_task e (Some p) cev lambdaQ calls =
       Inr (getOutput_result e
              (calls @ wallcycle_start ewcWAIT_GPU_PME_GATHER
                 # (if \<not> useGpuForceReduction (settings (gpu p)) \<or> cev
                    then [pme_gpu_synchronize] else []))
              p cev (if ngrids (common (gpu p)) > 1 then lambdaQ else Finite 1),
            calls @ wallcycle_start ewcWAIT_GPU_PME_GATHER
              # (if \<not> useGpuForceReduction (settings (gpu p)) \<or> cev
                 then [pme_gpu_synchronize] else [])
              @ [pme_gpu_getOutput cev (if ngrids (common (gpu p)) > 1 then lambdaQ else Finite 1),
                 wallcycle_stop ewcWAIT_GPU_PME_GATHER])"
  by (simp add: pme_gpu_wait_finish_task_def GMX_ASSERT_def Let_def fetch_lambda_def)

lemma wait_finish_task_inactive:
  "\<not> pme_gpu_active pme \<Longrightarrow>
     pme_gpu_wait_finish_task e pme cev lambdaQ calls = Inl (AssertionFailed msg_not_enabled)"
  by (simp add: pme_gpu_wait_finish_task_def GMX_ASSERT_def)

lemma reduce_outputs_Inr:
  assumes "pme_gpu_reduce_outputs e cev out fwv enerd calls = Inr (fwv', enerd', calls')"
  shows "\<exists>f f'. fwv = Some f \<and> fwv' = Some f'
           \<and> calls' = calls @ [wallcycle_start ewcPME_GPU_F_REDUCTION,
                                wallcycle_stop ewcPME_GPU_F_REDUCTION]
           \<and> virial f' = (if cev then matrix_add (virial f) (coulombVirial out) else virial f)
           \<and> (if haveForceOutput out then sum_forces (force f) (forces out) = Inr (force f')
               else force f' = force f)
           \<and> (if cev
               then \<exists>en. enerd = Some en \<and> enerd' = Some (add_energy_and_dvdl e out en)
               else enerd' = enerd)"
  using assms
  by (auto simp: pme_gpu_reduce_outputs_def reduce_energy_virial_def reduce_forces_def
        GMX_ASSERT_def addVirialContribution_def
      split: option.splits sum.splits if_splits prod.splits)

lemma wait_and_reduce_Inr:
  assumes "pme_gpu_wait_and_reduce e (Some p) stepWork fwv enerd lambdaQ calls = Inr r"
  shows "pme_gpu_active (Some p)
    \<and> haveForceOutput (getOutput_result e
              (calls @ wallcycle_start ewcWAIT_GPU_PME_GATHER
                 # (if \<not> useGpuForceReduction (settings (gpu p))
                        \<or> computeEnergy stepWork \<or> computeVirial stepWork
                    then [pme_gpu_synchronize] else []))
              p (computeEnergy stepWork \<or> computeVirial stepWork)
              (if ngrids (common (gpu p)) > 1 then lambdaQ else Finite 1))
        = (\<not> useGpuForceReduction (settings (gpu p)))
    \<and> pme_gpu_reduce_outputs e (computeEnergy stepWork \<or> computeVirial stepWork)
         (getOutput_result e
              (calls @ wallcycle_start ewcWAIT_GPU_PME_GATHER
                 # (if \<not> useGpuForceReduction (settings (gpu p))
                        \<or> computeEnergy stepWork \<or> computeVirial stepWork
                    then [pme_gpu_synchronize] else []))
              p (computeEnergy stepWork \<or> computeVirial stepWork)
              (if ngrids (common (gpu p)) > 1 then lambdaQ else Finite 1))
         fwv enerd
         (calls @ wallcycle_start ewcWAIT_GPU_PME_GATHER
              # (if \<not> useGpuForceReduction (settings (gpu p))
                        \<or> computeEnergy stepWork \<or> computeVirial stepWork
                 then [pme_gpu_synchronize] else [])
              @ [pme_gpu_getOutput (computeEnergy stepWork \<or> computeVirial stepWork)
                   (if ngrids (common (gpu p)) > 1 then lambdaQ else Finite 1),
                 wallcycle_stop ewcWAIT_GPU_PME_GATHER])
        = Inr r"
proof (cases "pme_gpu_active (Some p)")
  case False
  with assms show ?thesis
    by (simp add: pme_gpu_wait_and_reduce_def Let_def wait_finish_task_inactive)
next
  case True
  let ?cev = "computeEnergy stepWork \<or> computeVirial stepWork"
  let ?lam = "if ngrids (common (gpu p)) > 1 then lambdaQ else Finite 1"
  let ?calls1 = "calls @ wallcycle_start ewcWAIT_GPU_PME_GATHER
                   # (if \<not> useGpuForceReduction (settings (gpu p)) \<or> ?cev
                      then [pme_gpu_synchronize] else [])"
  let ?out = "getOutput_result e ?calls1 p ?cev ?lam"
  let ?calls2 = "?calls1 @ [pme_gpu_getOutput ?cev ?lam, wallcycle_stop ewcWAIT_GPU_PME_GATHER]"
  have unfolded: "pme_gpu_wait_and_reduce e (Some p) stepWork fwv enerd lambdaQ calls
          = GMX_ASSERT (useGpuForceReduction (settings (gpu p)) = (\<not> haveForceOutput ?out))
              msg_force_output (pme_gpu_reduce_outputs e ?cev ?out fwv enerd ?calls2)"
    by (simp add: pme_gpu_wait_and_reduce_def Let_def wait_finish_task_active [OF True]
          fetch_lambda_def)
  show ?thesis
  proof (cases "useGpuForceReduction (settings (gpu p)) = (\<not> haveForceOutput ?out)")
    case False
    with assms unfolded show ?thesis
      by (simp add: GMX_ASSERT_def)
  next
    case ok: True
    then have "haveForceOutput ?out = (\<not> useGpuForceReduction (settings (gpu p)))"
      by blast
    moreover have "pme_gpu_reduce_outputs e ?cev ?out fwv enerd ?calls2 = Inr r"
      using assms unfolded ok by (simp add: GMX_ASSERT_def)
    ultimately show ?thesis
      using True by simp
  qed
qed

subsection \<open>The poll, unfolded\<close>



lemma GMX_ASSERT_Inr:
  "GMX_ASSERT condition msg rest = Inr x \<Longrightarrow> condition \<and> rest = Inr x"
  by (cases condition) (simp_all add: GMX_ASSERT_def)

lemma reduce_result_True:
  "(case R of Inl err \<Rightarrow> Inl err
    | Inr (fwv1, enerd1, calls6) \<Rightarrow> Inr (True, fwv1, enerd1, calls6)) = Inr (True, r)
   \<Longrightarrow> R = Inr r"
  by (cases R) auto

lemma try_finish_task_done:
  assumes "pme_gpu_try_finish_task e (Some p) stepWork fwv enerd lambdaQ kind calls
             = Inr (True, r)"
  shows "pme_gpu_active (Some p)
    \<and> \<not> useGpuForceReduction (settings (gpu p))
    \<and> haveForceOutput (getOutput_result e
         (calls @ (if kind = Check \<and> GMX_GPU e = GMX_GPU_CUDA
                   then [wallcycle_start_nocount ewcWAIT_GPU_PME_GATHER, pme_gpu_stream_query,
                         wallcycle_stop ewcWAIT_GPU_PME_GATHER, wallcycle_start ewcWAIT_GPU_PME_GATHER]
                   else [wallcycle_start ewcWAIT_GPU_PME_GATHER, pme_gpu_synchronize])
            @ [pme_gpu_update_timings])
         p (computeEnergy stepWork \<or> computeVirial stepWork)
         (if ngrids (common (gpu p)) > 1 then lambdaQ else Finite 1))
    \<and> pme_gpu_reduce_outputs e (computeEnergy stepWork \<or> computeVirial stepWork)
         (getOutput_result e
           (calls @ (if kind = Check \<and> GMX_GPU e = GMX_GPU_CUDA
                   then [wallcycle_start_nocount ewcWAIT_GPU_PME_GATHER, pme_gpu_stream_query,
                         wallcycle_stop ewcWAIT_GPU_PME_GATHER, wallcycle_start ewcWAIT_GPU_PME_GATHER]
                   else [wallcycle_start ewcWAIT_GPU_PME_GATHER, pme_gpu_synchronize])
            @ [pme_gpu_update_timings])
           p (computeEnergy stepWork \<or> computeVirial stepWork)
           (if ngrids (common (gpu p)) > 1 then lambdaQ else Finite 1))
         fwv enerd
         (calls @ (if kind = Check \<and> GMX_GPU e = GMX_GPU_CUDA
                   then [wallcycle_start_nocount ewcWAIT_GPU_PME_GATHER, pme_gpu_stream_query,
                         wallcycle_stop ewcWAIT_GPU_PME_GATHER, wallcycle_start ewcWAIT_GPU_PME_GATHER]
                   else [wallcycle_start ewcWAIT_GPU_PME_GATHER, pme_gpu_synchronize])
            @ [pme_gpu_update_timings,
               pme_gpu_getOutput (computeEnergy stepWork \<or> computeVirial stepWork)
                 (if ngrids (common (gpu p)) > 1 then lambdaQ else Finite 1),
               wallcycle_stop ewcWAIT_GPU_PME_GATHER])
        = Inr r"
proof -
  let ?cev = "computeEnergy stepWork \<or> computeVirial stepWork"
  let ?lam = "if ngrids (common (gpu p)) > 1 then lambdaQ else Finite 1"
  let ?calls4 = "calls @ (if kind = Check \<and> GMX_GPU e = GMX_GPU_CUDA
                   then [wallcycle_start_nocount ewcWAIT_GPU_PME_GATHER, pme_gpu_stream_query,
                         wallcycle_stop ewcWAIT_GPU_PME_GATHER, wallcycle_start ewcWAIT_GPU_PME_GATHER]
                   else [wallcycle_start ewcWAIT_GPU_PME_GATHER, pme_gpu_synchronize])
            @ [pme_gpu_update_timings]"
  let ?out = "getOutput_result e ?calls4 p ?cev ?lam"
  let ?calls5 = "?calls4 @ [pme_gpu_getOutput ?cev ?lam, wallcycle_stop ewcWAIT_GPU_PME_GATHER]"
  have active: "pme_gpu_active (Some p)"
    using assms by (cases "pme_gpu_active (Some p)")
      (simp_all add: pme_gpu_try_finish_task_def GMX_ASSERT_def)
  have host: "\<not> useGpuForceReduction (settings (gpu p))"
    using assms active by (cases "useGpuForceReduction (settings (gpu p))")
      (simp_all add: pme_gpu_try_finish_task_def GMX_ASSERT_def)
  have notearly: "\<not> ((kind = Check \<and> GMX_GPU e = GMX_GPU_CUDA)
         \<and> \<not> stream_query_result e (calls @ [wallcycle_start_nocount ewcWAIT_GPU_PME_GATHER]) p)"
  proof
    assume early: "(kind = Check \<and> GMX_GPU e = GMX_GPU_CUDA)
         \<and> \<not> stream_query_result e (calls @ [wallcycle_start_nocount ewcWAIT_GPU_PME_GATHER]) p"
    have "\<exists>x. pme_gpu_try_finish_task e (Some p) stepWork fwv enerd lambdaQ kind calls
            = Inr (False, x)"
      using active host early
      by (simp add: pme_gpu_try_finish_task_def GMX_ASSERT_def Let_def)
    with assms show False by auto
  qed
  have unfolded: "pme_gpu_try_finish_task e (Some p) stepWork fwv enerd lambdaQ kind calls
      = GMX_ASSERT (useGpuForceReduction (settings (gpu p)) = (\<not> haveForceOutput ?out))
          msg_force_output
          (case pme_gpu_reduce_outputs e ?cev ?out fwv enerd ?calls5 of
             Inl err \<Rightarrow> Inl err
           | Inr (fwv1, enerd1, calls6) \<Rightarrow> Inr (True, fwv1, enerd1, calls6))"
  proof (cases "kind = Check \<and> GMX_GPU e = GMX_GPU_CUDA")
    case True
    with notearly
    have "stream_query_result e (calls @ [wallcycle_start_nocount ewcWAIT_GPU_PME_GATHER]) p"
      by blast
    then show ?thesis
      using active host True
      by (simp add: pme_gpu_try_finish_task_def GMX_ASSERT_def Let_def fetch_lambda_def)
  next
    case False
    then have no: "(kind = Check \<and> GMX_GPU e = GMX_GPU_CUDA \<and> X) = False" for X
      by blast
    show ?thesis
      using active host
      by (simp add: pme_gpu_try_finish_task_def GMX_ASSERT_def Let_def fetch_lambda_def False no)
  qed
  have step: "GMX_ASSERT (useGpuForceReduction (settings (gpu p)) = (\<not> haveForceOutput ?out))
          msg_force_output
          (case pme_gpu_reduce_outputs e ?cev ?out fwv enerd ?calls5 of
             Inl err \<Rightarrow> Inl err
           | Inr (fwv1, enerd1, calls6) \<Rightarrow> Inr (True, fwv1, enerd1, calls6)) = Inr (True, r)"
    by (rule trans [OF unfolded [symmetric] assms])
  have hfo: "haveForceOutput ?out"
    using GMX_ASSERT_Inr [OF step] host by blast
  have "pme_gpu_reduce_outputs e ?cev ?out fwv enerd ?calls5 = Inr r"
    using GMX_ASSERT_Inr [OF step] by (blast intro: reduce_result_True)
  with active host hfo show ?thesis
    by simp
qed

subsection \<open>The host summation\<close>




subsection \<open>Results of the completion entry points\<close>

lemma wait_and_reduce_result:
  fixes e p stepWork lambdaQ calls
  defines "cev \<equiv> computeEnergy stepWork \<or> computeVirial stepWork"
    and "lam \<equiv> if ngrids (common (gpu p)) > 1 then lambdaQ else Finite 1"
  defines "calls1 \<equiv> calls @ wallcycle_start ewcWAIT_GPU_PME_GATHER
                 # (if \<not> useGpuForceReduction (settings (gpu p)) \<or> cev
                    then [pme_gpu_synchronize] else [])"
  defines "out \<equiv> getOutput_result e calls1 p cev lam"
  assumes a: "pme_gpu_wait_and_reduce e (Some p) stepWork (Some f) enerd lambdaQ calls
                = Inr (fwv', enerd', calls')"
  shows "pme_gpu_active (Some p)
    \<and> haveForceOutput out = (\<not> useGpuForceReduction (settings (gpu p)))
    \<and> calls' = calls1 @ [pme_gpu_getOutput cev lam, wallcycle_stop ewcWAIT_GPU_PME_GATHER,
                        wallcycle_start ewcPME_GPU_F_REDUCTION,
                        wallcycle_stop ewcPME_GPU_F_REDUCTION]
    \<and> (\<exists>f'. fwv' = Some f'
          \<and> virial f' = (if cev then matrix_add (virial f) (coulombVirial out) else virial f)
          \<and> (if haveForceOutput out then sum_forces (force f) (forces out) = Inr (force f')
              else force f' = force f))
    \<and> (if cev then \<exists>en. enerd = Some en \<and> enerd' = Some (add_energy_and_dvdl e out en)
        else enerd' = enerd)"
proof -
  from wait_and_reduce_Inr [OF a]
  have act: "pme_gpu_active (Some p)"
    and h: "haveForceOutput out = (\<not> useGpuForceReduction (settings (gpu p)))"
    and r: "pme_gpu_reduce_outputs e cev out (Some f) enerd
              (calls1 @ [pme_gpu_getOutput cev lam, wallcycle_stop ewcWAIT_GPU_PME_GATHER])
              = Inr (fwv', enerd', calls')"
    unfolding out_def calls1_def cev_def lam_def by simp_all
  from reduce_outputs_Inr [OF r] act h show ?thesis
    by auto
qed

lemma try_finish_task_result:
  fixes e p stepWork lambdaQ calls kind
  defines "cev \<equiv> computeEnergy stepWork \<or> computeVirial stepWork"
    and "lam \<equiv> if ngrids (common (gpu p)) > 1 then lambdaQ else Finite 1"
  defines "calls1 \<equiv> calls @ (if kind = Check \<and> GMX_GPU e = GMX_GPU_CUDA
                   then [wallcycle_start_nocount ewcWAIT_GPU_PME_GATHER, pme_gpu_stream_query,
                         wallcycle_stop ewcWAIT_GPU_PME_GATHER, wallcycle_start ewcWAIT_GPU_PME_GATHER]
                   else [wallcycle_start ewcWAIT_GPU_PME_GATHER, pme_gpu_synchronize])
            @ [pme_gpu_update_timings]"
  defines "out \<equiv> getOutput_result e calls1 p cev lam"
  assumes a: "pme_gpu_try_finish_task e (Some p) stepWork (Some f) enerd lambdaQ kind calls
                = Inr (True, fwv', enerd', calls')"
  shows "pme_gpu_active (Some p)
    \<and> \<not> useGpuForceReduction (settings (gpu p))
    \<and> haveForceOutput out
    \<and> calls' = calls1 @ [pme_gpu_getOutput cev lam, wallcycle_stop ewcWAIT_GPU_PME_GATHER,
                        wallcycle_start ewcPME_GPU_F_REDUCTION,
                        wallcycle_stop ewcPME_GPU_F_REDUCTION]
    \<and> (\<exists>f'. fwv' = Some f'
          \<and> virial f' = (if cev then matrix_add (virial f) (coulombVirial out) else virial f)
          \<and> sum_forces (force f) (forces out) = Inr (force f'))
    \<and> (if cev then \<exists>en. enerd = Some en \<and> enerd' = Some (add_energy_and_dvdl e out en)
        else enerd' = enerd)"
proof -
  from try_finish_task_done [OF a]
  have act: "pme_gpu_active (Some p)"
    and host: "\<not> useGpuForceReduction (settings (gpu p))"
    and h: "haveForceOutput out"
    and r: "pme_gpu_reduce_outputs e cev out (Some f) enerd
              (calls1 @ [pme_gpu_getOutput cev lam, wallcycle_stop ewcWAIT_GPU_PME_GATHER])
              = Inr (fwv', enerd', calls')"
    unfolding out_def calls1_def cev_def lam_def by simp_all
  from reduce_outputs_Inr [OF r] act h host show ?thesis
    by auto
qed


subsection \<open>The box loop\<close>

lemma box_loop_unrolled:
  "box_loop box (b, prev) =
     (b \<or> real_ne (matrix_get prev 0 0) (matrix_get box 0 0)
        \<or> real_ne (matrix_get prev 1 0) (matrix_get box 1 0)
        \<or> real_ne (matrix_get prev 1 1) (matrix_get box 1 1)
        \<or> real_ne (matrix_get prev 2 0) (matrix_get box 2 0)
        \<or> real_ne (matrix_get prev 2 1) (matrix_get box 2 1)
        \<or> real_ne (matrix_get prev 2 2) (matrix_get box 2 2),
      ((matrix_get box 0 0, matrix_get prev 0 1, matrix_get prev 0 2),
       (matrix_get box 1 0, matrix_get box 1 1, matrix_get prev 1 2),
       (matrix_get box 2 0, matrix_get box 2 1, matrix_get box 2 2)))"
  by (cases prev rule: prod_cases3; cases box rule: prod_cases3)
     (auto simp: box_loop_def DIM_def box_entry_step_def matrix_get_def matrix_set_def eval_nat_numeral)

lemma box_loop_trigger:
  "fst (box_loop box (False, prev)) = some_entry_differs prev box"
  by (simp add: box_loop_unrolled some_entry_differs_def lower_triangular_entries_def)

lemma box_loop_lower:
  "(i, j) \<in> set lower_triangular_entries \<Longrightarrow>
     matrix_get (snd (box_loop box (b, prev))) i j = matrix_get box i j"
  by (auto simp: box_loop_unrolled lower_triangular_entries_def matrix_get_def)

lemma box_loop_upper:
  "i < j \<Longrightarrow> j < DIM \<Longrightarrow>
     matrix_get (snd (box_loop box (b, prev))) i j = matrix_get prev i j"
  by (cases prev rule: prod_cases3)
     (auto simp: box_loop_unrolled DIM_def matrix_get_def)

lemma real_ne_self: "real_ne x x = (x = NaN)"
  by (cases x) simp_all

lemma real_ne_if_different: "x \<noteq> y \<Longrightarrow> real_ne x y"
  by (cases x; cases y) simp_all

lemma same_box_differs:
  assumes "\<forall>(i, j) \<in> set lower_triangular_entries. matrix_get prev i j = matrix_get box i j"
  shows "some_entry_differs prev box = has_nan_entry box"
  using assms
  by (simp add: some_entry_differs_def has_nan_entry_def lower_triangular_entries_def
        real_ne_self)

lemma other_box_differs:
  assumes "\<forall>(i, j) \<in> set lower_triangular_entries. matrix_get prev i j = matrix_get box i j"
    and "\<exists>(i, j) \<in> set lower_triangular_entries. matrix_get nextBox i j \<noteq> matrix_get box i j"
  shows "some_entry_differs prev nextBox"
  using assms
  by (auto simp: some_entry_differs_def lower_triangular_entries_def
        intro: real_ne_if_different)

lemma prepare_result:
  assumes "pme_gpu_active (Some p)" and "0 < nnodes p" and "nnodes p = 1 \<or> 0 < ndecompdim p"
  shows "\<exists>p'. pme_gpu_prepare_computation e (Some p) box stepWork calls
                = Inr (p', calls @ (if haveDynamicBox stepWork
                                        \<or> some_entry_differs (previousBox (common (gpu p))) box
                                     then launch_update_input_box box else []))
          \<and> previousBox (common (gpu p'))
              = snd (box_loop box (False, previousBox (common (gpu p))))
          \<and> useGpuForceReduction (settings (gpu p')) = useGpuPmeFReduction stepWork
          \<and> recipbox p'
              = (if (haveDynamicBox stepWork
                       \<or> some_entry_differs (previousBox (common (gpu p))) box)
                    \<and> \<not> performGPUSolve (settings (gpu p))
                 then invertBoxMatrix e (scaleBox e box) else recipbox p)
          \<and> runMode p' = runMode p \<and> nnodes p' = nnodes p \<and> ndecompdim p' = ndecompdim p"
  using assms
  by (simp add: pme_gpu_prepare_computation_def GMX_ASSERT_def Let_def
        box_loop_trigger [symmetric])


lemma prepare_preserves_active:
  "pme_gpu_active (Some p) \<Longrightarrow> runMode p' = runMode p \<Longrightarrow> pme_gpu_active (Some p')"
  by (simp add: pme_gpu_active_def)

subsection \<open>The end of a step\<close>








section \<open>The accessors\<close>

text \<open>
  Claim C10. For a null \<^verbatim>\<open>pme\<close> pointer, and when PME does not run on the GPU (run mode
  CPU), \<^verbatim>\<open>pme_gpu_get_device_f\<close> and \<^verbatim>\<open>pme_gpu_get_f_ready_synchronizer\<close> return
  \<^verbatim>\<open>nullptr\<close> and \<^verbatim>\<open>pme_gpu_get_block_size\<close> returns 0. The three functions have
  no failure in their result type: they return a value, with no assertion and without
  reading \<^verbatim>\<open>pme->gpu\<close>.
\<close>

theorem accessors_when_inactive:
  "pme = None \<or> (\<exists>p. pme = Some p \<and> runMode p = CPU) \<Longrightarrow>
     pme_gpu_get_device_f e pme = None
     \<and> pme_gpu_get_f_ready_synchronizer e pme = None
     \<and> pme_gpu_get_block_size e pme = 0"
  by (auto simp: pme_gpu_get_device_f_def pme_gpu_get_f_ready_synchronizer_def
        pme_gpu_get_block_size_def pme_gpu_active_def)

theorem accessors_when_inactive_witness:
  "pme_gpu_get_device_f env_cuda None = None
   \<and> pme_gpu_get_f_ready_synchronizer env_cuda None = None
   \<and> pme_gpu_get_block_size env_cuda None = 0
   \<and> runMode pme_cpu = CPU
   \<and> pme_gpu_get_device_f env_cuda (Some pme_cpu) = None
   \<and> pme_gpu_get_f_ready_synchronizer env_cuda (Some pme_cpu) = None
   \<and> pme_gpu_get_block_size env_cuda (Some pme_cpu) = 0
   \<and> pme_gpu_get_device_f env_cuda (Some pme_single) = Some 1
   \<and> pme_gpu_get_block_size env_cuda (Some pme_single) = 32"
proof -
  have cpu: "runMode pme_cpu = CPU"
    by (simp add: pme_cpu_def)
  have gpu: "runMode pme_single = GPU"
    by (simp add: pme_single_def)
  have null: "(None :: gmx_pme_t option) = None \<or> (\<exists>p. None = Some p \<and> runMode p = CPU)"
    by simp
  have inactive: "Some pme_cpu = None \<or> (\<exists>p. Some pme_cpu = Some p \<and> runMode p = CPU)"
    using cpu by simp
  show ?thesis
    using accessors_when_inactive [OF null, where e = env_cuda]
      accessors_when_inactive [OF inactive, where e = env_cuda] cpu gpu
    by (simp add: pme_gpu_get_device_f_def pme_gpu_get_block_size_def pme_gpu_active_def
          env_cuda_def)
qed

section \<open>The spread stage\<close>

text \<open>
  Claim C9. \<^verbatim>\<open>pme_gpu_launch_spread\<close> asserts that the grid count is 1, or is 2 with
  \<^verbatim>\<open>bFEP_q\<close>. For every other combination the call ends in a failed assertion with a
  diagnostic; when the assertions before it hold, the diagnostic is the one about the
  grids. Under \<open>ngrids = 1 \<or> (ngrids = 2 \<and> bFEP_q)\<close> that failure cannot occur, and
  with the earlier assertions satisfied the spread is launched.
\<close>

theorem launch_spread_grid_count_asserted:
  "(\<not> (ngrids (common (gpu p)) = 1 \<or> (ngrids (common (gpu p)) = 2 \<and> bFEP_q p)) \<longrightarrow>
      (\<exists>msg. pme_gpu_launch_spread e (Some p) xReadyOnDevice lambdaQ calls
               = Inl (AssertionFailed msg)))
   \<and> (runMode p \<noteq> CPU
        \<and> (xReadyOnDevice \<noteq> None \<or> \<not> bPPnode p \<or> GMX_GPU e \<noteq> GMX_GPU_CUDA)
        \<and> doCoulomb p
        \<and> \<not> (ngrids (common (gpu p)) = 1 \<or> (ngrids (common (gpu p)) = 2 \<and> bFEP_q p)) \<longrightarrow>
      pme_gpu_launch_spread e (Some p) xReadyOnDevice lambdaQ calls
        = Inl (AssertionFailed msg_grids))
   \<and> (ngrids (common (gpu p)) = 1 \<or> (ngrids (common (gpu p)) = 2 \<and> bFEP_q p) \<longrightarrow>
      pme_gpu_launch_spread e (Some p) xReadyOnDevice lambdaQ calls
        \<noteq> Inl (AssertionFailed msg_grids))
   \<and> (runMode p \<noteq> CPU
        \<and> (xReadyOnDevice \<noteq> None \<or> \<not> bPPnode p \<or> GMX_GPU e \<noteq> GMX_GPU_CUDA)
        \<and> doCoulomb p
        \<and> (ngrids (common (gpu p)) = 1 \<or> (ngrids (common (gpu p)) = 2 \<and> bFEP_q p)) \<longrightarrow>
      pme_gpu_launch_spread e (Some p) xReadyOnDevice lambdaQ calls
        = Inr (calls @
            [wallcycle_start_nocount ewcLAUNCH_GPU,
             wallcycle_sub_start_nocount ewcsLAUNCH_GPU_PME,
             pme_gpu_spread xReadyOnDevice True True lambdaQ,
             wallcycle_sub_stop ewcsLAUNCH_GPU_PME,
             wallcycle_stop ewcLAUNCH_GPU]))"
  using msg_grids_distinct
  by (simp add: pme_gpu_launch_spread_def GMX_ASSERT_def pme_gpu_active_def)

theorem launch_spread_grid_count_asserted_witness:
  "pme_gpu_launch_spread env_cuda (Some pme_three) (Some 0) (Finite 1) []
     = Inl (AssertionFailed msg_grids)
   \<and> pme_gpu_launch_spread env_cuda (Some pme_dual) (Some 0) (Finite 1) []
     = Inr [wallcycle_start_nocount ewcLAUNCH_GPU,
            wallcycle_sub_start_nocount ewcsLAUNCH_GPU_PME,
            pme_gpu_spread (Some 0) True True (Finite 1),
            wallcycle_sub_stop ewcsLAUNCH_GPU_PME,
            wallcycle_stop ewcLAUNCH_GPU]
   \<and> pme_gpu_launch_spread env_cuda (Some pme_single) (Some 0) (Finite 1) []
     \<noteq> Inl (AssertionFailed msg_grids)"
  using launch_spread_grid_count_asserted [where p = pme_three and xReadyOnDevice = "Some 0"
          and e = env_cuda and lambdaQ = "Finite 1" and calls = "[]"]
    launch_spread_grid_count_asserted [where p = pme_dual and xReadyOnDevice = "Some 0"
          and e = env_cuda and lambdaQ = "Finite 1" and calls = "[]"]
    launch_spread_grid_count_asserted [where p = pme_single and xReadyOnDevice = "Some 0"
          and e = env_cuda and lambdaQ = "Finite 1" and calls = "[]"]
  by (simp add: pme_three_def pme_dual_def pme_single_def)

section \<open>The gather stage\<close>



section \<open>Polling\<close>

text \<open>
  Claim C4. When \<^verbatim>\<open>pme_gpu_try_finish_task\<close> is called with
  \<^verbatim>\<open>GpuTaskCompletion::Check\<close> on a build where the stream query is supported, and the
  query reports the work incomplete, it returns false at once. The destination force
  array with its virial and the energy data (energy terms and dvdl accumulator) come
  back as they were passed in, the function writes no field of \<^verbatim>\<open>*pme\<close>, and the
  only calls made are the stream query and the start and stop of the timer around it:
  no synchronisation, no output fetch, no reduction. A later poll or blocking call
  therefore starts from the same structures.
\<close>

theorem poll_incomplete_leaves_state:
  assumes "pme_gpu_active (Some p)"
    and "\<not> useGpuForceReduction (settings (gpu p))"
    and "GMX_GPU e = GMX_GPU_CUDA"
    and "\<not> stream_query_result e (calls @ [wallcycle_start_nocount ewcWAIT_GPU_PME_GATHER]) p"
  shows "pme_gpu_try_finish_task e (Some p) stepWork forceWithVirial enerd lambdaQ Check calls
           = Inr (False, forceWithVirial, enerd,
                  calls @ [wallcycle_start_nocount ewcWAIT_GPU_PME_GATHER, pme_gpu_stream_query,
                           wallcycle_stop ewcWAIT_GPU_PME_GATHER])"
  using assms by (simp add: pme_gpu_try_finish_task_def GMX_ASSERT_def Let_def)

theorem poll_incomplete_leaves_state_witness:
  "pme_gpu_active (Some pme_single)
   \<and> \<not> useGpuForceReduction (settings (gpu pme_single))
   \<and> GMX_GPU env_cuda = GMX_GPU_CUDA
   \<and> \<not> stream_query_result env_cuda [wallcycle_start_nocount ewcWAIT_GPU_PME_GATHER] pme_single
   \<and> pme_gpu_try_finish_task env_cuda (Some pme_single) step_energy (Some fwv_one)
         (Some enerd_zero) (Finite (3 / 10)) Check []
       = Inr (False, Some fwv_one, Some enerd_zero,
              [wallcycle_start_nocount ewcWAIT_GPU_PME_GATHER, pme_gpu_stream_query,
               wallcycle_stop ewcWAIT_GPU_PME_GATHER])"
proof -
  have a: "pme_gpu_active (Some pme_single)"
    by (simp add: pme_gpu_active_def pme_single_def)
  have b: "\<not> useGpuForceReduction (settings (gpu pme_single))"
    by (simp add: pme_single_def settings_gpu_def)
  have c: "GMX_GPU env_cuda = GMX_GPU_CUDA"
    by (simp add: env_cuda_def)
  have d: "\<not> stream_query_result env_cuda
               ([] @ [wallcycle_start_nocount ewcWAIT_GPU_PME_GATHER]) pme_single"
    by (simp add: env_cuda_def)
  show ?thesis
    using a b c d
      poll_incomplete_leaves_state [OF a b c d, where stepWork = step_energy
        and forceWithVirial = "Some fwv_one" and enerd = "Some enerd_zero"
        and lambdaQ = "Finite (3 / 10)"]
    by simp
qed

section \<open>The transform stage\<close>

text \<open>
  Claim C5, as stated, fails: with a decomposition the ordering handed to the solve
  kernel is \<^verbatim>\<open>GridOrdering::YZX\<close>, which is not Z-Y-X. The input is a single-grid
  GPU run with \<^verbatim>\<open>useDecomposition\<close> set.
\<close>

theorem solve_ordering_zyx_counterexample:
  "useDecomposition (settings (gpu pme_decomposed))
   \<and> performGPUSolve (settings (gpu pme_decomposed))
   \<and> pme_gpu_launch_complex_transforms pme_decomposed step_energy []
       = [wallcycle_start_nocount ewcLAUNCH_GPU, wallcycle_sub_start_nocount ewcsLAUNCH_GPU_PME,
          pme_gpu_3dfft GMX_FFT_REAL_TO_COMPLEX 0,
          wallcycle_sub_stop ewcsLAUNCH_GPU_PME, wallcycle_stop ewcLAUNCH_GPU,
          wallcycle_start_nocount ewcLAUNCH_GPU, wallcycle_sub_start_nocount ewcsLAUNCH_GPU_PME,
          pme_gpu_solve 0 YZX True,
          wallcycle_sub_stop ewcsLAUNCH_GPU_PME, wallcycle_stop ewcLAUNCH_GPU,
          wallcycle_start_nocount ewcLAUNCH_GPU, wallcycle_sub_start_nocount ewcsLAUNCH_GPU_PME,
          pme_gpu_3dfft GMX_FFT_COMPLEX_TO_REAL 0,
          wallcycle_sub_stop ewcsLAUNCH_GPU_PME, wallcycle_stop ewcLAUNCH_GPU]
   \<and> GridOrdering_axes YZX \<noteq> [AxisZ, AxisY, AxisX]"
  by (simp add: pme_gpu_launch_complex_transforms_def transform_grid_def solve_grid_def
        parallel_3dfft_execute_gpu_wrapper_def pme_decomposed_def pme_single_def settings_gpu_def
        step_energy_def step_static_def upto.simps)

text \<open>
  Claim C5, amended. When the solve runs on the device (\<^verbatim>\<open>performGPUSolve\<close>), every
  solve launch of \<^verbatim>\<open>pme_gpu_launch_complex_transforms\<close>, one per grid, is handed the
  ordering Y-Z-X (\<^verbatim>\<open>GridOrdering::YZX\<close>) when \<^verbatim>\<open>useDecomposition\<close> is set and
  X-Y-Z (\<^verbatim>\<open>GridOrdering::XYZ\<close>) otherwise.
\<close>

theorem solve_ordering_by_decomposition:
  "performGPUSolve (settings (gpu pme)) \<Longrightarrow>
     solve_orderings (pme_gpu_launch_complex_transforms pme stepWork calls)
       = solve_orderings calls
         @ replicate (nat (ngrids (common (gpu pme))))
             (if useDecomposition (settings (gpu pme)) then YZX else XYZ)
     \<and> GridOrdering_axes (if useDecomposition (settings (gpu pme)) then YZX else XYZ)
       = (if useDecomposition (settings (gpu pme))
          then [AxisY, AxisZ, AxisX] else [AxisX, AxisY, AxisZ])"
  by (simp add: solve_orderings_launch)

theorem solve_ordering_by_decomposition_witness:
  "performGPUSolve (settings (gpu pme_decomposed))
   \<and> useDecomposition (settings (gpu pme_decomposed))
   \<and> solve_orderings (pme_gpu_launch_complex_transforms pme_decomposed step_energy []) = [YZX]
   \<and> performGPUSolve (settings (gpu pme_dual))
   \<and> \<not> useDecomposition (settings (gpu pme_dual))
   \<and> solve_orderings (pme_gpu_launch_complex_transforms pme_dual step_energy []) = [XYZ, XYZ]"
proof -
  have a: "performGPUSolve (settings (gpu pme_decomposed))"
    by (simp add: pme_decomposed_def pme_single_def settings_gpu_def)
  have b: "performGPUSolve (settings (gpu pme_dual))"
    by (simp add: pme_dual_def pme_single_def settings_gpu_def)
  have n: "solve_orderings [] = []"
    by (simp add: solve_orderings_def map_filter_def)
  show ?thesis
    using a b n
      solve_ordering_by_decomposition [OF a, where stepWork = step_energy and calls = "[]"]
      solve_ordering_by_decomposition [OF b, where stepWork = step_energy and calls = "[]"]
    by (simp add: pme_decomposed_def pme_dual_def pme_single_def settings_gpu_def
          eval_nat_numeral)
qed

section \<open>Reduction of the outputs\<close>




text \<open>
  Claim C7. The three entry points compute \<^verbatim>\<open>computeEnergyAndVirial\<close> as
  \<^verbatim>\<open>computeEnergy || computeVirial\<close>: it is the flag handed to every solve of the
  transform stage and to the output fetch of the two completion entry points. The
  reduction adds the virial, the reciprocal Coulomb energy and the dvdl term together
  when the flag is set and none of them when it is not.
\<close>

theorem energy_and_virial_together:
  fixes e p stepWork lambdaQ
  defines "cev \<equiv> computeEnergy stepWork \<or> computeVirial stepWork"
    and "lam \<equiv> if ngrids (common (gpu p)) > 1 then lambdaQ else Finite 1"
  shows
  "set (energy_virial_flags (pme_gpu_launch_complex_transforms p stepWork [])) \<subseteq> {cev}
   \<and> (pme_gpu_wait_and_reduce e (Some p) stepWork (Some f) enerd lambdaQ calls
         = Inr (fwv', enerd', calls') \<longrightarrow>
      (\<exists>calls1 f'.
         calls' = calls1 @ [pme_gpu_getOutput cev lam, wallcycle_stop ewcWAIT_GPU_PME_GATHER,
                           wallcycle_start ewcPME_GPU_F_REDUCTION,
                           wallcycle_stop ewcPME_GPU_F_REDUCTION]
         \<and> fwv' = Some f'
         \<and> (if cev
             then virial f' = matrix_add (virial f)
                                (coulombVirial (getOutput_result e calls1 p cev lam))
                  \<and> (\<exists>en. enerd = Some en
                        \<and> enerd' = Some (add_energy_and_dvdl e
                                           (getOutput_result e calls1 p cev lam) en))
             else virial f' = virial f \<and> enerd' = enerd)))
   \<and> (pme_gpu_try_finish_task e (Some p) stepWork (Some f) enerd lambdaQ kind calls
         = Inr (True, fwv', enerd', calls') \<longrightarrow>
      (\<exists>calls1 f'.
         calls' = calls1 @ [pme_gpu_getOutput cev lam, wallcycle_stop ewcWAIT_GPU_PME_GATHER,
                           wallcycle_start ewcPME_GPU_F_REDUCTION,
                           wallcycle_stop ewcPME_GPU_F_REDUCTION]
         \<and> fwv' = Some f'
         \<and> (if cev
             then virial f' = matrix_add (virial f)
                                (coulombVirial (getOutput_result e calls1 p cev lam))
                  \<and> (\<exists>en. enerd = Some en
                        \<and> enerd' = Some (add_energy_and_dvdl e
                                           (getOutput_result e calls1 p cev lam) en))
             else virial f' = virial f \<and> enerd' = enerd)))
   \<and> energy_term (add_energy_and_dvdl e out en) (F_COUL_RECIP e)
       = real_add (energy_term en (F_COUL_RECIP e)) (coulombEnergy out)
   \<and> dvdl_lin (add_energy_and_dvdl e out en) (efptCOUL e)
       = real_add (dvdl_lin en (efptCOUL e)) (coulombDvdl out)"
proof (intro conjI impI)
  show "set (energy_virial_flags (pme_gpu_launch_complex_transforms p stepWork [])) \<subseteq> {cev}"
    using flags_launch [of p stepWork "[]"] unfolding cev_def by (simp add: flags_Nil)
next
  assume a: "pme_gpu_wait_and_reduce e (Some p) stepWork (Some f) enerd lambdaQ calls
               = Inr (fwv', enerd', calls')"
  from wait_and_reduce_result [OF a]
  show "\<exists>calls1 f'.
         calls' = calls1 @ [pme_gpu_getOutput cev lam, wallcycle_stop ewcWAIT_GPU_PME_GATHER,
                           wallcycle_start ewcPME_GPU_F_REDUCTION,
                           wallcycle_stop ewcPME_GPU_F_REDUCTION]
         \<and> fwv' = Some f'
         \<and> (if cev
             then virial f' = matrix_add (virial f)
                                (coulombVirial (getOutput_result e calls1 p cev lam))
                  \<and> (\<exists>en. enerd = Some en
                        \<and> enerd' = Some (add_energy_and_dvdl e
                                           (getOutput_result e calls1 p cev lam) en))
             else virial f' = virial f \<and> enerd' = enerd)"
    unfolding cev_def lam_def
    by (cases "computeEnergy stepWork \<or> computeVirial stepWork") auto
next
  assume a: "pme_gpu_try_finish_task e (Some p) stepWork (Some f) enerd lambdaQ kind calls
               = Inr (True, fwv', enerd', calls')"
  from try_finish_task_result [OF a]
  show "\<exists>calls1 f'.
         calls' = calls1 @ [pme_gpu_getOutput cev lam, wallcycle_stop ewcWAIT_GPU_PME_GATHER,
                           wallcycle_start ewcPME_GPU_F_REDUCTION,
                           wallcycle_stop ewcPME_GPU_F_REDUCTION]
         \<and> fwv' = Some f'
         \<and> (if cev
             then virial f' = matrix_add (virial f)
                                (coulombVirial (getOutput_result e calls1 p cev lam))
                  \<and> (\<exists>en. enerd = Some en
                        \<and> enerd' = Some (add_energy_and_dvdl e
                                           (getOutput_result e calls1 p cev lam) en))
             else virial f' = virial f \<and> enerd' = enerd)"
    unfolding cev_def lam_def
    by (cases "computeEnergy stepWork \<or> computeVirial stepWork") auto
next
  show "energy_term (add_energy_and_dvdl e out en) (F_COUL_RECIP e)
          = real_add (energy_term en (F_COUL_RECIP e)) (coulombEnergy out)"
    by (simp add: add_energy_and_dvdl_def)
next
  show "dvdl_lin (add_energy_and_dvdl e out en) (efptCOUL e)
          = real_add (dvdl_lin en (efptCOUL e)) (coulombDvdl out)"
    by (simp add: add_energy_and_dvdl_def)
qed

theorem energy_and_virial_together_witness:
  "energy_virial_flags (pme_gpu_launch_complex_transforms pme_mixed step_energy [])
     = [True, True]
   \<and> energy_virial_flags (pme_gpu_launch_complex_transforms pme_single step_static [])
     = [False]
   \<and> pme_gpu_wait_and_reduce env_cuda (Some pme_single) step_energy (Some fwv_one)
       (Some enerd_zero) (Finite 1) []
     = Inr (Some \<lparr>force = [(Finite 11, Finite 12, Finite 13)], virial = cubic_box\<rparr>,
            Some \<lparr>energy_term = (\<lambda>i. Finite 0)(0 := Finite 1),
                  dvdl_lin = (\<lambda>i. Finite 0)(0 := Finite 7)\<rparr>,
            [wallcycle_start ewcWAIT_GPU_PME_GATHER, pme_gpu_synchronize,
             pme_gpu_getOutput True (Finite 1), wallcycle_stop ewcWAIT_GPU_PME_GATHER,
             wallcycle_start ewcPME_GPU_F_REDUCTION, wallcycle_stop ewcPME_GPU_F_REDUCTION])
   \<and> pme_gpu_try_finish_task env_cuda (Some pme_single) step_static (Some fwv_one)
       (Some enerd_zero) (Finite 1) Wait []
     = Inr (True, Some \<lparr>force = [(Finite 11, Finite 12, Finite 13)], virial = zero_matrix\<rparr>,
            Some enerd_zero,
            [wallcycle_start ewcWAIT_GPU_PME_GATHER, pme_gpu_synchronize, pme_gpu_update_timings,
             pme_gpu_getOutput False (Finite 1), wallcycle_stop ewcWAIT_GPU_PME_GATHER,
             wallcycle_start ewcPME_GPU_F_REDUCTION, wallcycle_stop ewcPME_GPU_F_REDUCTION])"
  using energy_and_virial_together [where e = env_cuda and p = pme_single
          and stepWork = step_energy and f = fwv_one and enerd = "Some enerd_zero"
          and lambdaQ = "Finite 1" and calls = "[]" and kind = Wait]
  by (simp add: pme_gpu_wait_and_reduce_def pme_gpu_wait_finish_task_def
        pme_gpu_try_finish_task_def pme_gpu_reduce_outputs_def reduce_energy_virial_def
        reduce_forces_def sum_forces_def GMX_ASSERT_def pme_gpu_active_def fetch_lambda_def
        addVirialContribution_def add_energy_and_dvdl_def
        pme_gpu_launch_complex_transforms_def transform_grid_def solve_grid_def
        parallel_3dfft_execute_gpu_wrapper_def upto.simps flags_Nil flags_Cons
        env_cuda_def example_getOutput_def pme_single_def pme_mixed_def
        settings_gpu_def step_static_def step_energy_def fwv_one_def enerd_zero_def
        zero_matrix_def zero_rvec_def cubic_box_def Let_def)

section \<open>The output fetch\<close>




section \<open>The blocking wait\<close>

text \<open>
  Claim C1, as stated, fails: with the force reduction on the device and neither energy
  nor virial requested, the blocking path fetches the output without synchronising the
  stream. No \<^verbatim>\<open>pme_gpu_synchronize\<close> stands in the log.
\<close>

theorem block_without_synchronize_counterexample:
  "useGpuForceReduction (settings (gpu pme_device_reduction))
   \<and> \<not> (computeEnergy step_static \<or> computeVirial step_static)
   \<and> pme_gpu_wait_finish_task env_cuda (Some pme_device_reduction) False (Finite 1) []
       = Inr (\<lparr>forces = [], haveForceOutput = False,
               coulombEnergy = Finite 0, coulombVirial = zero_matrix,
               coulombDvdl = Finite 0\<rparr>,
              [wallcycle_start ewcWAIT_GPU_PME_GATHER,
               pme_gpu_getOutput False (Finite 1), wallcycle_stop ewcWAIT_GPU_PME_GATHER])
   \<and> pme_gpu_wait_and_reduce env_cuda (Some pme_device_reduction) step_static (Some fwv_one)
       (Some enerd_zero) (Finite 1) []
       = Inr (Some fwv_one, Some enerd_zero,
              [wallcycle_start ewcWAIT_GPU_PME_GATHER,
               pme_gpu_getOutput False (Finite 1), wallcycle_stop ewcWAIT_GPU_PME_GATHER,
               wallcycle_start ewcPME_GPU_F_REDUCTION, wallcycle_stop ewcPME_GPU_F_REDUCTION])
   \<and> pme_gpu_synchronize \<notin> set
              [wallcycle_start ewcWAIT_GPU_PME_GATHER,
               pme_gpu_getOutput False (Finite 1), wallcycle_stop ewcWAIT_GPU_PME_GATHER,
               wallcycle_start ewcPME_GPU_F_REDUCTION, wallcycle_stop ewcPME_GPU_F_REDUCTION]"
  by (simp add: pme_gpu_wait_and_reduce_def pme_gpu_wait_finish_task_def
        pme_gpu_reduce_outputs_def reduce_energy_virial_def
        reduce_forces_def GMX_ASSERT_def pme_gpu_active_def fetch_lambda_def
        env_cuda_def example_getOutput_def pme_single_def pme_device_reduction_def
        settings_gpu_def step_static_def Let_def)

text \<open>
  Claim C1, amended. The blocking path synchronises the stream before the output fetch
  exactly when \<^verbatim>\<open>useGpuForceReduction\<close> is false or \<^verbatim>\<open>computeEnergyAndVirial\<close> is
  true; the fetch itself is always performed, after the synchronisation when there is
  one, and reads the device as the calls up to that point left it.
\<close>

theorem block_synchronizes_when_output_awaited:
  fixes e p stepWork lambdaQ
  defines "cev \<equiv> computeEnergy stepWork \<or> computeVirial stepWork"
    and "lam \<equiv> if ngrids (common (gpu p)) > 1 then lambdaQ else Finite 1"
  shows
  "(pme_gpu_active (Some p) \<longrightarrow>
      pme_gpu_wait_finish_task e (Some p) c lambdaQ calls =
        Inr (getOutput_result e
               (calls @ wallcycle_start ewcWAIT_GPU_PME_GATHER
                  # (if \<not> useGpuForceReduction (settings (gpu p)) \<or> c
                     then [pme_gpu_synchronize] else []))
               p c lam,
             calls @ wallcycle_start ewcWAIT_GPU_PME_GATHER
               # (if \<not> useGpuForceReduction (settings (gpu p)) \<or> c
                  then [pme_gpu_synchronize] else [])
               @ [pme_gpu_getOutput c lam, wallcycle_stop ewcWAIT_GPU_PME_GATHER]))
   \<and> (pme_gpu_wait_and_reduce e (Some p) stepWork (Some f) enerd lambdaQ calls
         = Inr (fwv', enerd', calls') \<longrightarrow>
      calls' = calls @ wallcycle_start ewcWAIT_GPU_PME_GATHER
               # (if \<not> useGpuForceReduction (settings (gpu p)) \<or> cev
                  then [pme_gpu_synchronize] else [])
               @ [pme_gpu_getOutput cev lam, wallcycle_stop ewcWAIT_GPU_PME_GATHER,
                  wallcycle_start ewcPME_GPU_F_REDUCTION,
                  wallcycle_stop ewcPME_GPU_F_REDUCTION])"
proof (intro conjI impI)
  assume act: "pme_gpu_active (Some p)"
  show "pme_gpu_wait_finish_task e (Some p) c lambdaQ calls =
        Inr (getOutput_result e
               (calls @ wallcycle_start ewcWAIT_GPU_PME_GATHER
                  # (if \<not> useGpuForceReduction (settings (gpu p)) \<or> c
                     then [pme_gpu_synchronize] else []))
               p c lam,
             calls @ wallcycle_start ewcWAIT_GPU_PME_GATHER
               # (if \<not> useGpuForceReduction (settings (gpu p)) \<or> c
                  then [pme_gpu_synchronize] else [])
               @ [pme_gpu_getOutput c lam, wallcycle_stop ewcWAIT_GPU_PME_GATHER])"
    unfolding lam_def by (rule wait_finish_task_active [OF act])
next
  assume a: "pme_gpu_wait_and_reduce e (Some p) stepWork (Some f) enerd lambdaQ calls
               = Inr (fwv', enerd', calls')"
  from wait_and_reduce_result [OF a]
  show "calls' = calls @ wallcycle_start ewcWAIT_GPU_PME_GATHER
               # (if \<not> useGpuForceReduction (settings (gpu p)) \<or> cev
                  then [pme_gpu_synchronize] else [])
               @ [pme_gpu_getOutput cev lam, wallcycle_stop ewcWAIT_GPU_PME_GATHER,
                  wallcycle_start ewcPME_GPU_F_REDUCTION,
                  wallcycle_stop ewcPME_GPU_F_REDUCTION]"
    unfolding cev_def lam_def by simp
qed

theorem block_synchronizes_when_output_awaited_witness:
  "pme_gpu_active (Some pme_single)
   \<and> pme_gpu_wait_finish_task env_cuda (Some pme_single) False (Finite 1) []
       = Inr (\<lparr>forces = [(Finite 1, Finite 2, Finite 3)], haveForceOutput = True,
               coulombEnergy = Finite 0, coulombVirial = zero_matrix,
               coulombDvdl = Finite 0\<rparr>,
              [wallcycle_start ewcWAIT_GPU_PME_GATHER, pme_gpu_synchronize,
               pme_gpu_getOutput False (Finite 1), wallcycle_stop ewcWAIT_GPU_PME_GATHER])
   \<and> pme_gpu_active (Some pme_device_reduction)
   \<and> pme_gpu_wait_finish_task env_cuda (Some pme_device_reduction) True (Finite 1) []
       = Inr (\<lparr>forces = [], haveForceOutput = False,
               coulombEnergy = Finite 1, coulombVirial = cubic_box,
               coulombDvdl = Finite 7\<rparr>,
              [wallcycle_start ewcWAIT_GPU_PME_GATHER, pme_gpu_synchronize,
               pme_gpu_getOutput True (Finite 1), wallcycle_stop ewcWAIT_GPU_PME_GATHER])
   \<and> pme_gpu_wait_and_reduce env_cuda (Some pme_single) step_static (Some fwv_one)
       (Some enerd_zero) (Finite 1) []
     = Inr (Some \<lparr>force = [(Finite 11, Finite 12, Finite 13)], virial = zero_matrix\<rparr>,
            Some enerd_zero,
            [wallcycle_start ewcWAIT_GPU_PME_GATHER, pme_gpu_synchronize,
             pme_gpu_getOutput False (Finite 1), wallcycle_stop ewcWAIT_GPU_PME_GATHER,
             wallcycle_start ewcPME_GPU_F_REDUCTION, wallcycle_stop ewcPME_GPU_F_REDUCTION])"
  using block_synchronizes_when_output_awaited [where e = env_cuda and p = pme_single
          and c = False and stepWork = step_static and f = fwv_one
          and enerd = "Some enerd_zero" and lambdaQ = "Finite 1" and calls = "[]"]
        block_synchronizes_when_output_awaited [where e = env_cuda and p = pme_device_reduction
          and c = True and lambdaQ = "Finite 1" and calls = "[]"]
  by (simp add: pme_gpu_wait_and_reduce_def pme_gpu_wait_finish_task_def
        pme_gpu_reduce_outputs_def reduce_energy_virial_def
        reduce_forces_def sum_forces_def GMX_ASSERT_def pme_gpu_active_def fetch_lambda_def
        env_cuda_def example_getOutput_def pme_single_def pme_device_reduction_def
        settings_gpu_def step_static_def fwv_one_def Let_def)

section \<open>The box tracker\<close>

text \<open>
  Claim C2, as stated, fails in two places. First, the persisted box is not overwritten
  with the new box: only its lower triangle is written, so after a call with a box that
  has a non-zero entry above the diagonal the persisted box differs from that box.
  Second, a box with a NaN in its lower triangle differs from itself under \<^verbatim>\<open>!=\<close>:
  preparing twice with that same box, dynamic box off, triggers the recompute on the
  second call as well.
\<close>

theorem box_tracker_counterexample:
  "pme_gpu_prepare_computation env_cuda (Some pme_single) upper_box step_static []
     = Inr (pme_after_cubic, launch_update_input_box upper_box)
   \<and> previousBox (common (gpu pme_after_cubic)) \<noteq> upper_box
   \<and> \<not> haveDynamicBox step_static
   \<and> pme_gpu_prepare_computation env_cuda (Some pme_single) nan_box step_static []
     = Inr (pme_after_nan, launch_update_input_box nan_box)
   \<and> pme_gpu_prepare_computation env_cuda (Some pme_after_nan) nan_box step_static
       (launch_update_input_box nan_box)
     = Inr (pme_after_nan, launch_update_input_box nan_box @ launch_update_input_box nan_box)"
  by (simp add: pme_gpu_prepare_computation_def GMX_ASSERT_def pme_gpu_active_def Let_def
        box_loop_unrolled matrix_get_def
        pme_after_cubic_def pme_after_nan_def pme_single_def settings_gpu_def
        env_cuda_def step_static_def upper_box_def nan_box_def cubic_box_def zero_matrix_def
        zero_rvec_def)

text \<open>
  Claim C2, amended. Every call of \<^verbatim>\<open>pme_gpu_prepare_computation\<close> that passes its
  assertions compares the six lower-triangular entries of the new box with those of the
  persisted box by \<^verbatim>\<open>!=\<close>, overwrites these six entries of the persisted box with the
  new ones whether or not the recompute triggers, and leaves the three entries above the
  diagonal as they were. The box update is launched (and, when the solve runs on the
  host, the reciprocal box is recomputed) if and only if \<^verbatim>\<open>haveDynamicBox\<close> is set or
  at least one compared entry differs. Consequently a second call with the same box,
  dynamic box off, launches nothing when no lower-triangular entry of the box is NaN,
  and a second call with a box that differs from the first in a lower-triangular entry
  launches the update.
\<close>

theorem box_tracker_copy_always:
  assumes act: "pme_gpu_active (Some p)"
    and nodes: "0 < nnodes p"
    and decomp: "nnodes p = 1 \<or> 0 < ndecompdim p"
  shows "\<exists>p' calls'.
      pme_gpu_prepare_computation e (Some p) box stepWork calls = Inr (p', calls')
    \<and> calls' = calls @ (if haveDynamicBox stepWork
                            \<or> some_entry_differs (previousBox (common (gpu p))) box
                         then launch_update_input_box box else [])
    \<and> recipbox p' = (if (haveDynamicBox stepWork
                            \<or> some_entry_differs (previousBox (common (gpu p))) box)
                         \<and> \<not> performGPUSolve (settings (gpu p))
                      then invertBoxMatrix e (scaleBox e box) else recipbox p)
    \<and> (\<forall>(i, j) \<in> set lower_triangular_entries.
          matrix_get (previousBox (common (gpu p'))) i j = matrix_get box i j)
    \<and> (\<forall>i j. i < j \<and> j < DIM \<longrightarrow>
          matrix_get (previousBox (common (gpu p'))) i j
            = matrix_get (previousBox (common (gpu p))) i j)
    \<and> (\<not> haveDynamicBox nextStepWork \<and> \<not> has_nan_entry box \<longrightarrow>
          (\<exists>p''. pme_gpu_prepare_computation e (Some p') box nextStepWork calls'
                   = Inr (p'', calls')))
    \<and> ((\<exists>(i, j) \<in> set lower_triangular_entries. matrix_get nextBox i j \<noteq> matrix_get box i j) \<longrightarrow>
          (\<exists>p''. pme_gpu_prepare_computation e (Some p') nextBox nextStepWork calls'
                   = Inr (p'', calls' @ launch_update_input_box nextBox)))"
proof -
  from prepare_result [OF act nodes decomp, of e box stepWork calls]
  obtain p' where
    first: "pme_gpu_prepare_computation e (Some p) box stepWork calls
              = Inr (p', calls @ (if haveDynamicBox stepWork
                                      \<or> some_entry_differs (previousBox (common (gpu p))) box
                                   then launch_update_input_box box else []))"
    and prev: "previousBox (common (gpu p'))
                 = snd (box_loop box (False, previousBox (common (gpu p))))"
    and recip: "recipbox p' = (if (haveDynamicBox stepWork
                            \<or> some_entry_differs (previousBox (common (gpu p))) box)
                         \<and> \<not> performGPUSolve (settings (gpu p))
                      then invertBoxMatrix e (scaleBox e box) else recipbox p)"
    and same: "runMode p' = runMode p" "nnodes p' = nnodes p" "ndecompdim p' = ndecompdim p"
    by blast
  define calls' where "calls' = calls @ (if haveDynamicBox stepWork
                                      \<or> some_entry_differs (previousBox (common (gpu p))) box
                                   then launch_update_input_box box else [])"
  have lower: "\<forall>(i, j) \<in> set lower_triangular_entries.
                 matrix_get (previousBox (common (gpu p'))) i j = matrix_get box i j"
    unfolding prev by (auto simp: box_loop_lower)
  have upper: "\<forall>i j. i < j \<and> j < DIM \<longrightarrow>
          matrix_get (previousBox (common (gpu p'))) i j
            = matrix_get (previousBox (common (gpu p))) i j"
    unfolding prev by (simp add: box_loop_upper)
  have act': "pme_gpu_active (Some p')"
    using act same(1) by (rule prepare_preserves_active)
  have nodes': "0 < nnodes p'" and decomp': "nnodes p' = 1 \<or> 0 < ndecompdim p'"
    using nodes decomp same by simp_all
  have again: "\<exists>p''. pme_gpu_prepare_computation e (Some p') box nextStepWork calls'
                       = Inr (p'', calls')"
    if "\<not> haveDynamicBox nextStepWork" and "\<not> has_nan_entry box"
    using prepare_result [OF act' nodes' decomp', of e box nextStepWork calls']
      same_box_differs [OF lower] that by auto
  have changed: "\<exists>p''. pme_gpu_prepare_computation e (Some p') nextBox nextStepWork calls'
                       = Inr (p'', calls' @ launch_update_input_box nextBox)"
    if "\<exists>(i, j) \<in> set lower_triangular_entries. matrix_get nextBox i j \<noteq> matrix_get box i j"
    using prepare_result [OF act' nodes' decomp', of e nextBox nextStepWork calls']
      other_box_differs [OF lower that] by auto
  show ?thesis
    using first recip lower upper again changed unfolding calls'_def [symmetric]
    by blast
qed

theorem box_tracker_copy_always_witness:
  "pme_gpu_active (Some pme_single) \<and> 0 < nnodes pme_single
   \<and> \<not> haveDynamicBox step_static \<and> \<not> has_nan_entry cubic_box
   \<and> pme_gpu_prepare_computation env_cuda (Some pme_single) cubic_box step_static []
     = Inr (pme_after_cubic, launch_update_input_box cubic_box)
   \<and> pme_gpu_prepare_computation env_cuda (Some pme_after_cubic) cubic_box step_static
       (launch_update_input_box cubic_box)
     = Inr (pme_after_cubic, launch_update_input_box cubic_box)
   \<and> matrix_get triclinic_box 1 0 \<noteq> matrix_get cubic_box 1 0
   \<and> pme_gpu_prepare_computation env_cuda (Some pme_after_cubic) triclinic_box step_static
       (launch_update_input_box cubic_box)
     = Inr (pme_after_triclinic,
            launch_update_input_box cubic_box @ launch_update_input_box triclinic_box)"
proof -
  have act: "pme_gpu_active (Some pme_single)"
    by (simp add: pme_gpu_active_def pme_single_def)
  have nodes: "0 < nnodes pme_single"
    by (simp add: pme_single_def)
  have decomp: "nnodes pme_single = 1 \<or> 0 < ndecompdim pme_single"
    by (simp add: pme_single_def)
  show ?thesis
    using act nodes
      box_tracker_copy_always [OF act nodes decomp, where e = env_cuda and box = cubic_box
        and stepWork = step_static and calls = "[]" and nextStepWork = step_static
        and nextBox = triclinic_box]
    by (simp add: pme_gpu_prepare_computation_def GMX_ASSERT_def pme_gpu_active_def Let_def
          box_loop_unrolled matrix_get_def has_nan_entry_def lower_triangular_entries_def
          pme_after_cubic_def pme_after_triclinic_def pme_single_def settings_gpu_def
          env_cuda_def step_static_def triclinic_box_def cubic_box_def zero_matrix_def
          zero_rvec_def)
qed

end
